theory Spec2Isabelle
  imports Main "HOL-Library.Char_ord" "HOL-Library.List_Lexorder"
begin

section \<open>The backend client, as the screens see it\<close>

text \<open>
  Every screen talks to the hosted document store through \<open>client\<close>
  (\<open>fetch\<close>, \<open>create\<close>, \<open>patch(id).set(..).commit()\<close>, \<open>delete\<close>). The store is
  not part of the screens: a handler awaits a promise, and what the promise settles to is
  an input of the handler. \<open>Resolved v\<close> is the awaited value, \<open>Rejected\<close> is the branch
  taken by the handler's \<open>catch\<close>.
\<close>

datatype 'a promise = Rejected | Resolved 'a

text \<open>
  What a handler does besides updating the React state: the calls it issues on the backend
  client (with the document or patch it sends) and the blocking \<open>alert\<close> dialogs it opens,
  in program order. \<open>console.error\<close>, \<open>console.log\<close> and \<open>window.scrollTo\<close> are
  left out; \<open>confirm\<close> is an input (the answer of the person at the screen).
  A handler is modelled from its call to the end of its body, with the outcome of every
  promise it awaits as an argument.
\<close>

datatype ('doc, 'patch) effect =
    ClientFetch
  | ClientCreate 'doc
  | ClientPatch string 'patch
  | ClientDelete string
  | Alert string

fun is_alert :: "('doc, 'patch) effect \<Rightarrow> bool" where
  "is_alert (Alert _) = True"
| "is_alert _ = False"

fun is_create :: "('doc, 'patch) effect \<Rightarrow> bool" where
  "is_create (ClientCreate _) = True"
| "is_create _ = False"

text \<open>JavaScript truthiness of an optional string: \<open>undefined\<close> and \<open>""\<close> are falsy.\<close>

fun truthy :: "string option \<Rightarrow> bool" where
  "truthy None = False"
| "truthy (Some s) = (s \<noteq> [])"

text \<open>\<open>a || d\<close> on an optional string.\<close>

fun or_default :: "string option \<Rightarrow> string \<Rightarrow> string" where
  "or_default None d = d"
| "or_default (Some s) d = (if s = [] then d else s)"


section \<open>Messages screen (\<open>messages/page.tsx\<close>)\<close>

record message =
  msg_id :: string
  msg_name :: string
  msg_email :: string
  msg_message :: string
  msg_createdAt :: string
  msg_pinned :: bool

record messages_screen =
  messages :: "message list"
  msgs_loading :: bool
  selectedMessage :: "message option"

type_synonym messages_effect = "(unit, bool) effect"

definition messages_initial :: messages_screen where
  "messages_initial = \<lparr>messages = [], msgs_loading = False, selectedMessage = None\<rparr>"

definition fetchMessages ::
  "messages_screen \<Rightarrow> message list promise \<Rightarrow> messages_screen \<times> messages_effect list" where
  "fetchMessages st fetched =
     (case fetched of
        Resolved data \<Rightarrow> (st\<lparr>messages := data, msgs_loading := False\<rparr>, [ClientFetch])
      | Rejected \<Rightarrow> (st\<lparr>msgs_loading := False\<rparr>, [ClientFetch]))"

definition messages_handleDelete ::
  "messages_screen \<Rightarrow> string \<Rightarrow> bool \<Rightarrow> unit promise \<Rightarrow> messages_screen \<times> messages_effect list" where
  "messages_handleDelete st ident confirmed deleted =
     (if confirmed then
        (case deleted of
           Resolved _ \<Rightarrow>
             (st\<lparr>messages := filter (\<lambda>msg. msg_id msg \<noteq> ident) (messages st)\<rparr>,
              [ClientDelete ident])
         | Rejected \<Rightarrow> (st, [ClientDelete ident, Alert ''Failed to delete message'']))
      else (st, []))"

definition togglePin ::
  "messages_screen \<Rightarrow> string \<Rightarrow> bool \<Rightarrow> message promise \<Rightarrow> messages_screen \<times> messages_effect list" where
  "togglePin st ident currentPinned patched =
     (case patched of
        Resolved updated \<Rightarrow>
          (st\<lparr>messages :=
                map (\<lambda>msg. if msg_id msg = ident then msg\<lparr>msg_pinned := msg_pinned updated\<rparr> else msg)
                    (messages st)\<rparr>,
           [ClientPatch ident (\<not> currentPinned)])
      | Rejected \<Rightarrow>
          (st, [ClientPatch ident (\<not> currentPinned), Alert ''Failed to update pin state'']))"

definition pinnedMessages :: "messages_screen \<Rightarrow> message list" where
  "pinnedMessages st = filter (\<lambda>msg. msg_pinned msg) (messages st)"

definition unpinnedMessages :: "messages_screen \<Rightarrow> message list" where
  "unpinnedMessages st = filter (\<lambda>msg. \<not> msg_pinned msg) (messages st)"

text \<open>
  The cards in the order of the markup: the "Pinned Messages" grid, then the
  "Other Messages" grid.
\<close>

definition rendered_messages :: "messages_screen \<Rightarrow> message list" where
  "rendered_messages st = pinnedMessages st @ unpinnedMessages st"

text \<open>
  The query of \<open>fetchMessages\<close> ends in \<open>order(pinned desc, createdAt desc)\<close>: the
  list the backend answers with has the pinned documents first and, among documents with
  the same flag, the greater \<open>createdAt\<close> first. \<open>createdAt\<close> is a string (an ISO
  timestamp); strings are compared lexicographically.
\<close>

definition query_ordered :: "message list \<Rightarrow> bool" where
  "query_ordered data =
     sorted_wrt (\<lambda>a b. (msg_pinned a \<and> \<not> msg_pinned b)
                      \<or> (msg_pinned a = msg_pinned b \<and> msg_createdAt b \<le> msg_createdAt a)) data"

definition pinned_first :: "message list \<Rightarrow> bool" where
  "pinned_first ms = sorted_wrt (\<lambda>a b. msg_pinned b \<longrightarrow> msg_pinned a) ms"

definition newest_first :: "message list \<Rightarrow> bool" where
  "newest_first ms = sorted_wrt (\<lambda>a b. msg_createdAt b \<le> msg_createdAt a) ms"

text \<open>The two buttons of a message card, with the outcome of the backend call.\<close>

datatype message_action =
    ClickPin string bool "message promise"
  | ClickDelete string bool "unit promise"

fun messages_step :: "messages_screen \<Rightarrow> message_action \<Rightarrow> messages_screen" where
  "messages_step st (ClickPin ident currentPinned patched) = fst (togglePin st ident currentPinned patched)"
| "messages_step st (ClickDelete ident confirmed deleted) = fst (messages_handleDelete st ident confirmed deleted)"

definition messages_run :: "messages_screen \<Rightarrow> message_action list \<Rightarrow> messages_screen" where
  "messages_run st acts = foldl messages_step st acts"

definition messages_loaded :: "message list \<Rightarrow> messages_screen" where
  "messages_loaded data = fst (fetchMessages messages_initial (Resolved data))"

text \<open>
  A click on the pin button whose patch succeeded and whose returned document is pinned
  (\<open>reply_pins\<close>), or is not pinned (\<open>reply_unpins\<close>): the flag the local message
  takes is the one of the returned document.
\<close>

fun reply_pins :: "message_action \<Rightarrow> bool" where
  "reply_pins (ClickPin _ _ (Resolved updated)) = msg_pinned updated"
| "reply_pins _ = False"

fun reply_unpins :: "message_action \<Rightarrow> bool" where
  "reply_unpins (ClickPin _ _ (Resolved updated)) = (\<not> msg_pinned updated)"
| "reply_unpins _ = False"


section \<open>Users screen (first component of \<open>user/page.tsx\<close>)\<close>

record address =
  addr_street :: string
  addr_city :: string
  addr_state :: string
  addr_country :: string
  addr_postalCode :: string

record user =
  user_id :: string
  user_name :: string
  user_email :: string
  user_mobileNumber :: string
  user_password :: string
  user_address :: address
  user_isVerified :: bool
  user_role :: string

text \<open>\<open>SanityUser\<close>: the query's projection, a \<open>User\<close> with its \<open>_type\<close>.\<close>

record sanity_user = user +
  su_type :: string

text \<open>\<open>UserInput\<close>: every field optional, the address and each of its fields as well.\<close>

record address_input =
  ai_street :: "string option"
  ai_city :: "string option"
  ai_state :: "string option"
  ai_country :: "string option"
  ai_postalCode :: "string option"

record user_input =
  ui_id :: "string option"
  ui_name :: "string option"
  ui_email :: "string option"
  ui_mobileNumber :: "string option"
  ui_password :: "string option"
  ui_address :: "address_input option"
  ui_isVerified :: "bool option"
  ui_role :: "string option"

text \<open>\<open>NewUserDocument\<close>: a \<open>User\<close> without \<open>_id\<close>, with \<open>_type\<close>.\<close>

record new_user_document =
  nu_type :: string
  nu_name :: string
  nu_email :: string
  nu_mobileNumber :: string
  nu_password :: string
  nu_address :: address
  nu_isVerified :: bool
  nu_role :: string

record users_screen =
  users :: "user list"
  users_loading :: bool
  editingUser :: "user option"
  users_showAddForm :: bool
  users_formState :: user_input
  showPassword :: bool

type_synonym users_effect = "(new_user_document, user_input) effect"

text \<open>The empty object \<open>{}\<close> as a \<open>UserInput\<close>.\<close>

definition user_input_empty :: user_input where
  "user_input_empty =
     \<lparr>ui_id = None, ui_name = None, ui_email = None, ui_mobileNumber = None, ui_password = None,
      ui_address = None, ui_isVerified = None, ui_role = None\<rparr>"

text \<open>A \<open>User\<close> stored as the form buffer (\<open>setFormState(user)\<close>): every field present.\<close>

definition user_as_input :: "user \<Rightarrow> user_input" where
  "user_as_input u =
     \<lparr>ui_id = Some (user_id u), ui_name = Some (user_name u), ui_email = Some (user_email u),
      ui_mobileNumber = Some (user_mobileNumber u), ui_password = Some (user_password u),
      ui_address = Some \<lparr>ai_street = Some (addr_street (user_address u)),
                         ai_city = Some (addr_city (user_address u)),
                         ai_state = Some (addr_state (user_address u)),
                         ai_country = Some (addr_country (user_address u)),
                         ai_postalCode = Some (addr_postalCode (user_address u))\<rparr>,
      ui_isVerified = Some (user_isVerified u), ui_role = Some (user_role u)\<rparr>"

definition users_initial :: users_screen where
  "users_initial =
     \<lparr>users = [], users_loading = False, editingUser = None, users_showAddForm = False,
      users_formState = user_input_empty, showPassword = False\<rparr>"

definition fetchUsers ::
  "users_screen \<Rightarrow> sanity_user list promise \<Rightarrow> users_screen \<times> users_effect list" where
  "fetchUsers st fetched =
     (case fetched of
        Resolved data \<Rightarrow>
          (st\<lparr>users := map (\<lambda>doc. \<lparr>user_id = user_id doc, user_name = user_name doc,
                                     user_email = user_email doc,
                                     user_mobileNumber = user_mobileNumber doc,
                                     user_password = user_password doc,
                                     user_address = user_address doc,
                                     user_isVerified = user_isVerified doc,
                                     user_role = user_role doc\<rparr>) data,
               users_loading := False\<rparr>, [ClientFetch])
      | Rejected \<Rightarrow> (st\<lparr>users_loading := False\<rparr>, [ClientFetch]))"

definition users_handleDelete ::
  "users_screen \<Rightarrow> string \<Rightarrow> bool \<Rightarrow> unit promise \<Rightarrow> users_screen \<times> users_effect list" where
  "users_handleDelete st ident confirmed deleted =
     (if confirmed then
        (case deleted of
           Resolved _ \<Rightarrow>
             (st\<lparr>users := filter (\<lambda>u. user_id u \<noteq> ident) (users st)\<rparr>, [ClientDelete ident])
         | Rejected \<Rightarrow> (st, [ClientDelete ident, Alert ''Failed to delete user'']))
      else (st, []))"

definition users_handleEditClick :: "users_screen \<Rightarrow> user \<Rightarrow> users_screen" where
  "users_handleEditClick st u =
     st\<lparr>editingUser := Some u, users_formState := user_as_input u, users_showAddForm := True\<rparr>"

definition handleCancelEdit :: "users_screen \<Rightarrow> users_screen" where
  "handleCancelEdit st =
     st\<lparr>editingUser := None, users_formState := user_input_empty, users_showAddForm := False\<rparr>"

text \<open>The "Add" button of the header (its inline \<open>onClick\<close>).\<close>

definition users_openAddForm :: "users_screen \<Rightarrow> users_screen" where
  "users_openAddForm st =
     st\<lparr>users_showAddForm := True, editingUser := None, users_formState := user_input_empty\<rparr>"

definition users_handleUpdate ::
  "users_screen \<Rightarrow> user promise \<Rightarrow> users_screen \<times> users_effect list" where
  "users_handleUpdate st patched =
     (case editingUser st of
        None \<Rightarrow> (st, [])
      | Some eu \<Rightarrow>
          if user_id eu = [] then (st, [])
          else
            (case patched of
               Resolved updated \<Rightarrow>
                 (st\<lparr>users := map (\<lambda>u. if user_id u = user_id eu then updated else u) (users st),
                      editingUser := None,
                      users_formState := user_input_empty,
                      users_showAddForm := False\<rparr>,
                  [ClientPatch (user_id eu) (users_formState st)])
             | Rejected \<Rightarrow>
                 (st, [ClientPatch (user_id eu) (users_formState st), Alert ''Failed to update user''])))"

text \<open>\<open>formState.address?.f\<close>: \<open>undefined\<close> when there is no address.\<close>

definition address_field :: "user_input \<Rightarrow> (address_input \<Rightarrow> string option) \<Rightarrow> string option" where
  "address_field fs f = (case ui_address fs of None \<Rightarrow> None | Some a \<Rightarrow> f a)"

text \<open>The guard of \<open>handleAddNew\<close> with a \<open>\<not>\<close> in front: every required field is truthy.\<close>

definition users_required_present :: "user_input \<Rightarrow> bool" where
  "users_required_present fs =
     (\<not> (\<not> truthy (ui_name fs) \<or> \<not> truthy (ui_email fs) \<or> \<not> truthy (ui_mobileNumber fs)
         \<or> \<not> truthy (ui_password fs)
         \<or> \<not> truthy (address_field fs ai_street) \<or> \<not> truthy (address_field fs ai_city)
         \<or> \<not> truthy (address_field fs ai_state) \<or> \<not> truthy (address_field fs ai_country)
         \<or> \<not> truthy (address_field fs ai_postalCode)))"

text \<open>
  \<open>newUserData\<close>. The non-null assertions \<open>x!\<close> are \<^term>\<open>the\<close>: the guard above has
  established that the value is there. \<open>isVerified ?? false\<close> and \<open>role || "user"\<close>
  are written out.
\<close>

definition newUserData :: "user_input \<Rightarrow> new_user_document" where
  "newUserData userData =
     \<lparr>nu_type = ''user'',
      nu_name = the (ui_name userData),
      nu_email = the (ui_email userData),
      nu_mobileNumber = the (ui_mobileNumber userData),
      nu_password = the (ui_password userData),
      nu_address = \<lparr>addr_street = the (ai_street (the (ui_address userData))),
                    addr_city = the (ai_city (the (ui_address userData))),
                    addr_state = the (ai_state (the (ui_address userData))),
                    addr_country = the (ai_country (the (ui_address userData))),
                    addr_postalCode = the (ai_postalCode (the (ui_address userData)))\<rparr>,
      nu_isVerified = (case ui_isVerified userData of None \<Rightarrow> False | Some b \<Rightarrow> b),
      nu_role = or_default (ui_role userData) ''user''\<rparr>"

definition users_handleAddNew ::
  "users_screen \<Rightarrow> user promise \<Rightarrow> users_screen \<times> users_effect list" where
  "users_handleAddNew st created =
     (if \<not> users_required_present (users_formState st)
      then (st, [Alert ''Please fill in all required fields.''])
      else
        (case created of
           Resolved newUser \<Rightarrow>
             (st\<lparr>users := users st @ [newUser],
                  users_showAddForm := False,
                  users_formState := user_input_empty\<rparr>,
              [ClientCreate (newUserData (users_formState st))])
         | Rejected \<Rightarrow>
             (st, [ClientCreate (newUserData (users_formState st)), Alert ''Failed to create user''])))"



section \<open>String operations of the orders form\<close>

text \<open>
  A \<^typ>\<open>char\<close> is one code unit of the string, with a value below 256 (ASCII and
  Latin-1); code units from 256 on are not modelled. \<open>s.split(",")\<close> cuts at
  every separator and keeps the empty pieces, so \<open>"".split(",")\<close> is \<open>[""]\<close> and
  \<open>"a,".split(",")\<close> is \<open>["a", ""]\<close>.
\<close>

fun js_split :: "char \<Rightarrow> string \<Rightarrow> string list" where
  "js_split sep [] = [[]]"
| "js_split sep (c # cs) =
     (if c = sep then [] # js_split sep cs
      else (case js_split sep cs of
              [] \<Rightarrow> [[c]]
            | piece # pieces \<Rightarrow> (c # piece) # pieces))"

text \<open>
  The white space and line terminators \<open>trim\<close> removes, among the code units below
  256: tab, line feed, vertical tab, form feed, carriage return, space and the no-break
  space U+00A0.
\<close>

definition js_is_space :: "char \<Rightarrow> bool" where
  "js_is_space c =
     (c \<in> set [CHR 0x09, CHR 0x0A, CHR 0x0B, CHR 0x0C, CHR 0x0D, CHR 0x20, CHR 0xA0])"

definition js_trim :: "string \<Rightarrow> string" where
  "js_trim s = rev (dropWhile js_is_space (rev (dropWhile js_is_space s)))"

fun js_join :: "string \<Rightarrow> string list \<Rightarrow> string" where
  "js_join sep [] = []"
| "js_join sep [x] = x"
| "js_join sep (x # y # ys) = x @ sep @ js_join sep (y # ys)"


section \<open>Orders screen (second component of \<open>user/page.tsx\<close>)\<close>

text \<open>
  JavaScript numbers (\<open>quantity\<close>, \<open>amount\<close>, and the numeric fields of a product
  below) are carried around by the handlers and never computed with; they are integers here.
\<close>

record product_ref =
  pr_id :: string
  pr_name :: string
  pr_imageUrl :: string

record cart_item =
  ci_quantity :: int
  ci_product :: product_ref

record order =
  order_id :: string
  order_fullName :: string
  order_email :: string
  order_phone :: string
  order_address :: string
  order_city :: string
  order_postalCode :: string
  order_country :: string
  order_paymentMethod :: string
  order_paymentStatus :: string
  order_amount :: int
  order_createdAt :: string
  order_status :: string
  order_cartItems :: "cart_item list"

text \<open>
  \<open>OrderInput\<close>, with the type of \<open>cartItems\<close> left open: the form buffer holds an
  optional comma-separated string (\<open>order_input\<close>), the objects sent to the backend hold
  the same fields with \<open>cartItems\<close> replaced by an array of strings (\<open>order_payload\<close>).
\<close>

record 'c order_form =
  of_id :: "string option"
  of_fullName :: "string option"
  of_email :: "string option"
  of_phone :: "string option"
  of_address :: "string option"
  of_city :: "string option"
  of_postalCode :: "string option"
  of_country :: "string option"
  of_paymentMethod :: "string option"
  of_paymentStatus :: "string option"
  of_amount :: "int option"
  of_createdAt :: "string option"
  of_status :: "string option"
  of_cartItems :: 'c

type_synonym order_input = "string option order_form"
type_synonym order_payload = "string list order_form"

text \<open>\<open>{ ...formState, cartItems: items }\<close>\<close>

definition spread_with_cartItems :: "order_input \<Rightarrow> string list \<Rightarrow> order_payload" where
  "spread_with_cartItems fs items =
     \<lparr>of_id = of_id fs, of_fullName = of_fullName fs, of_email = of_email fs,
      of_phone = of_phone fs, of_address = of_address fs, of_city = of_city fs,
      of_postalCode = of_postalCode fs, of_country = of_country fs,
      of_paymentMethod = of_paymentMethod fs, of_paymentStatus = of_paymentStatus fs,
      of_amount = of_amount fs, of_createdAt = of_createdAt fs, of_status = of_status fs,
      of_cartItems = items\<rparr>"

text \<open>The document of \<open>client.create\<close>: \<open>_type\<close> and the fields.\<close>

record order_document =
  od_type :: string
  od_fields :: order_payload

text \<open>The two patches the screen sends: \<open>set({status: ..})\<close> and \<open>set(updateData)\<close>.\<close>

datatype order_patch = SetStatus string | SetFields order_payload

record orders_screen =
  orders :: "order list"
  orders_loading :: bool
  editingOrder :: "order option"
  orders_showAddForm :: bool
  orders_formState :: order_input

type_synonym orders_effect = "(order_document, order_patch) effect"

definition order_input_empty :: order_input where
  "order_input_empty =
     \<lparr>of_id = None, of_fullName = None, of_email = None, of_phone = None, of_address = None,
      of_city = None, of_postalCode = None, of_country = None, of_paymentMethod = None,
      of_paymentStatus = None, of_amount = None, of_createdAt = None, of_status = None,
      of_cartItems = None\<rparr>"

definition orders_initial :: orders_screen where
  "orders_initial =
     \<lparr>orders = [], orders_loading = False, editingOrder = None, orders_showAddForm = False,
      orders_formState = order_input_empty\<rparr>"

definition fetchOrders ::
  "orders_screen \<Rightarrow> order list promise \<Rightarrow> orders_screen \<times> orders_effect list" where
  "fetchOrders st fetched =
     (case fetched of
        Resolved data \<Rightarrow> (st\<lparr>orders := data, orders_loading := False\<rparr>, [ClientFetch])
      | Rejected \<Rightarrow> (st\<lparr>orders_loading := False\<rparr>, [ClientFetch]))"

definition handleComplete ::
  "orders_screen \<Rightarrow> string \<Rightarrow> unit promise \<Rightarrow> orders_screen \<times> orders_effect list" where
  "handleComplete st orderId patched =
     (case patched of
        Resolved _ \<Rightarrow>
          (st\<lparr>orders := map (\<lambda>ord. if order_id ord = orderId
                                     then ord\<lparr>order_status := ''completed''\<rparr> else ord)
                              (orders st)\<rparr>,
           [ClientPatch orderId (SetStatus ''completed'')])
      | Rejected \<Rightarrow>
          (st, [ClientPatch orderId (SetStatus ''completed''),
                Alert ''Failed to mark order as completed'']))"

definition orders_handleDelete ::
  "orders_screen \<Rightarrow> string \<Rightarrow> bool \<Rightarrow> unit promise \<Rightarrow> orders_screen \<times> orders_effect list" where
  "orders_handleDelete st orderId confirmed deleted =
     (if confirmed then
        (case deleted of
           Resolved _ \<Rightarrow>
             (st\<lparr>orders := filter (\<lambda>ord. order_id ord \<noteq> orderId) (orders st)\<rparr>,
              [ClientDelete orderId])
         | Rejected \<Rightarrow> (st, [ClientDelete orderId, Alert ''Failed to delete order'']))
      else (st, []))"

definition orders_handleEditClick :: "orders_screen \<Rightarrow> order \<Rightarrow> orders_screen" where
  "orders_handleEditClick st ord =
     st\<lparr>editingOrder := Some ord,
        orders_formState :=
          \<lparr>of_id = Some (order_id ord), of_fullName = Some (order_fullName ord),
           of_email = Some (order_email ord), of_phone = Some (order_phone ord),
           of_address = Some (order_address ord), of_city = Some (order_city ord),
           of_postalCode = Some (order_postalCode ord), of_country = Some (order_country ord),
           of_paymentMethod = Some (order_paymentMethod ord),
           of_paymentStatus = Some (order_paymentStatus ord),
           of_amount = Some (order_amount ord), of_createdAt = Some (order_createdAt ord),
           of_status = Some (order_status ord),
           of_cartItems = Some (js_join '', '' (map (\<lambda>item. pr_id (ci_product item))
                                                    (order_cartItems ord)))\<rparr>,
        orders_showAddForm := False\<rparr>"

definition orders_handleCancel :: "orders_screen \<Rightarrow> orders_screen" where
  "orders_handleCancel st =
     st\<lparr>editingOrder := None, orders_showAddForm := False, orders_formState := order_input_empty\<rparr>"

text \<open>The "Add" button of the header (its inline \<open>onClick\<close>).\<close>

definition orders_openAddForm :: "orders_screen \<Rightarrow> orders_screen" where
  "orders_openAddForm st =
     st\<lparr>orders_showAddForm := True, editingOrder := None, orders_formState := order_input_empty\<rparr>"

text \<open>
  \<open>formState.cartItems ? formState.cartItems.split(",").map((id) => id.trim()) : []\<close>
\<close>

definition cartItemsArray :: "order_input \<Rightarrow> string list" where
  "cartItemsArray fs =
     (if truthy (of_cartItems fs)
      then map js_trim (js_split CHR '','' (the (of_cartItems fs)))
      else [])"

definition updateData :: "order_input \<Rightarrow> order_payload" where
  "updateData fs = spread_with_cartItems fs (cartItemsArray fs)"

definition orders_handleUpdate ::
  "orders_screen \<Rightarrow> order promise \<Rightarrow> orders_screen \<times> orders_effect list" where
  "orders_handleUpdate st patched =
     (case editingOrder st of
        None \<Rightarrow> (st, [])
      | Some eo \<Rightarrow>
          if order_id eo = [] then (st, [])
          else
            (case patched of
               Resolved updated \<Rightarrow>
                 (orders_handleCancel
                    (st\<lparr>orders := map (\<lambda>ord. if order_id ord = order_id eo then updated else ord)
                                       (orders st)\<rparr>),
                  [ClientPatch (order_id eo) (SetFields (updateData (orders_formState st)))])
             | Rejected \<Rightarrow>
                 (st, [ClientPatch (order_id eo) (SetFields (updateData (orders_formState st))),
                       Alert ''Failed to update order''])))"

text \<open>
  The document of \<open>handleAddNew\<close>: \<open>{_type: "order", ...formState, status: "pending",
  cartItems: cartItemsArray, createdAt}\<close>, where \<open>createdAt\<close> is the form's value or,
  when that is empty, the current time \<open>now\<close> (\<open>new Date().toISOString()\<close>, an input).
\<close>

definition newOrderDocument :: "order_input \<Rightarrow> string \<Rightarrow> order_document" where
  "newOrderDocument fs now =
     \<lparr>od_type = ''order'',
      od_fields = (spread_with_cartItems fs (cartItemsArray fs))
                    \<lparr>of_status := Some ''pending'',
                     of_createdAt := Some (or_default (of_createdAt fs) now)\<rparr>\<rparr>"

text \<open>
  After a successful create the screen refetches (\<open>await fetchOrders()\<close>, which catches its
  own failure) and then closes the form.
\<close>

definition orders_handleAddNew ::
  "orders_screen \<Rightarrow> string \<Rightarrow> unit promise \<Rightarrow> order list promise \<Rightarrow> orders_screen \<times> orders_effect list" where
  "orders_handleAddNew st now created fetched =
     (case created of
        Resolved _ \<Rightarrow>
          (orders_handleCancel (fst (fetchOrders st fetched)),
           ClientCreate (newOrderDocument (orders_formState st) now) # snd (fetchOrders st fetched))
      | Rejected \<Rightarrow>
          (st, [ClientCreate (newOrderDocument (orders_formState st) now),
                Alert ''Failed to create order'']))"

definition orders_isEditing :: "orders_screen \<Rightarrow> bool" where
  "orders_isEditing st = (editingOrder st \<noteq> None)"


definition pendingOrders :: "orders_screen \<Rightarrow> order list" where
  "pendingOrders st = filter (\<lambda>ord. order_status ord = ''pending'') (orders st)"

definition completedOrders :: "orders_screen \<Rightarrow> order list" where
  "completedOrders st = filter (\<lambda>ord. order_status ord = ''completed'') (orders st)"

text \<open>The form's \<open>onSubmit\<close>: \<open>isEditing ? handleUpdate : handleAddNew\<close>.\<close>

definition orders_onSubmit ::
  "orders_screen \<Rightarrow> order promise \<Rightarrow> string \<Rightarrow> unit promise \<Rightarrow> order list promise
     \<Rightarrow> orders_screen \<times> orders_effect list" where
  "orders_onSubmit st patched now created fetched =
     (if orders_isEditing st then orders_handleUpdate st patched
      else orders_handleAddNew st now created fetched)"


section \<open>Products screen (third component of \<open>user/page.tsx\<close>)\<close>

text \<open>\<open>image?: { asset: { _ref?: string; url: string } }\<close>\<close>

record asset =
  asset_ref :: "string option"
  asset_url :: string

record product =
  product_id :: string
  product_name :: string
  product_image :: "asset option"
  product_price :: string
  product_description :: string
  product_discountPercentage :: int
  product_isFeaturedProduct :: bool
  product_stockLevel :: int
  product_category :: string

text \<open>\<open>ProductInput\<close>; \<open>pi_image\<close> is the \<open>_ref\<close> of the uploaded asset.\<close>

record product_input =
  pi_id :: "string option"
  pi_name :: "string option"
  pi_image :: "string option"
  pi_price :: "string option"
  pi_description :: "string option"
  pi_discountPercentage :: "int option"
  pi_isFeaturedProduct :: "bool option"
  pi_stockLevel :: "int option"
  pi_category :: "string option"

text \<open>
  A product document as the backend answers with it: the fields the screen reads from the
  result of \<open>fetch\<close> (\<open>SanityProduct\<close>, with \<open>imageUrl\<close>), \<open>create\<close> and
  \<open>patch\<close>. The handlers read them with non-null assertions, so they are taken to be
  there.
\<close>

record product_document =
  pd_id :: string
  pd_name :: string
  pd_price :: string
  pd_description :: string
  pd_discountPercentage :: int
  pd_isFeaturedProduct :: bool
  pd_stockLevel :: int
  pd_category :: string

record sanity_product = product_document +
  sp_imageUrl :: string

text \<open>The document of \<open>client.create\<close>: \<open>_type\<close> and the fields.\<close>

record new_product_document =
  np_type :: string
  np_fields :: product_input

record products_screen =
  products :: "product list"
  products_loading :: bool
  editingProduct :: "product option"
  products_showAddForm :: bool
  products_formState :: product_input
  imagePreview :: string

type_synonym products_effect = "(new_product_document, product_input) effect"

definition product_input_empty :: product_input where
  "product_input_empty =
     \<lparr>pi_id = None, pi_name = None, pi_image = None, pi_price = None, pi_description = None,
      pi_discountPercentage = None, pi_isFeaturedProduct = None, pi_stockLevel = None,
      pi_category = None\<rparr>"

definition products_initial :: products_screen where
  "products_initial =
     \<lparr>products = [], products_loading = False, editingProduct = None,
      products_showAddForm = False, products_formState = product_input_empty,
      imagePreview = []\<rparr>"

definition fetchProducts ::
  "products_screen \<Rightarrow> sanity_product list promise \<Rightarrow> products_screen \<times> products_effect list" where
  "fetchProducts st fetched =
     (case fetched of
        Resolved data \<Rightarrow>
          (st\<lparr>products :=
                map (\<lambda>doc. \<lparr>product_id = pd_id doc, product_name = pd_name doc,
                            product_image = Some \<lparr>asset_ref = None, asset_url = sp_imageUrl doc\<rparr>,
                            product_price = pd_price doc,
                            product_description = pd_description doc,
                            product_discountPercentage = pd_discountPercentage doc,
                            product_isFeaturedProduct = pd_isFeaturedProduct doc,
                            product_stockLevel = pd_stockLevel doc,
                            product_category = pd_category doc\<rparr>) data,
               products_loading := False\<rparr>, [ClientFetch])
      | Rejected \<Rightarrow> (st\<lparr>products_loading := False\<rparr>, [ClientFetch]))"

text \<open>
  "Delete a product and refresh the list": after a successful delete the handler calls
  \<open>fetchProducts()\<close>; the local list is whatever that fetch brings.
\<close>

definition products_handleDelete ::
  "products_screen \<Rightarrow> string \<Rightarrow> bool \<Rightarrow> unit promise \<Rightarrow> sanity_product list promise
     \<Rightarrow> products_screen \<times> products_effect list" where
  "products_handleDelete st ident confirmed deleted fetched =
     (if confirmed then
        (case deleted of
           Resolved _ \<Rightarrow>
             (fst (fetchProducts st fetched), ClientDelete ident # snd (fetchProducts st fetched))
         | Rejected \<Rightarrow> (st, [ClientDelete ident, Alert ''Failed to delete product'']))
      else (st, []))"


definition products_handleCancel :: "products_screen \<Rightarrow> products_screen" where
  "products_handleCancel st =
     st\<lparr>editingProduct := None, products_showAddForm := False,
        products_formState := product_input_empty, imagePreview := []\<rparr>"

text \<open>The "Add" button of the header: the buffer starts as \<open>{ category: "Chair" }\<close>.\<close>

definition products_openAddForm :: "products_screen \<Rightarrow> products_screen" where
  "products_openAddForm st =
     st\<lparr>products_showAddForm := True, editingProduct := None,
        products_formState := product_input_empty\<lparr>pi_category := Some ''Chair''\<rparr>,
        imagePreview := []\<rparr>"

text \<open>The local \<open>Product\<close> built from a backend answer and the current image preview.\<close>

definition mappedProduct :: "product_document \<Rightarrow> string \<Rightarrow> product" where
  "mappedProduct doc preview =
     \<lparr>product_id = pd_id doc, product_name = pd_name doc,
      product_image = Some \<lparr>asset_ref = None, asset_url = preview\<rparr>,
      product_price = pd_price doc, product_description = pd_description doc,
      product_discountPercentage = pd_discountPercentage doc,
      product_isFeaturedProduct = pd_isFeaturedProduct doc,
      product_stockLevel = pd_stockLevel doc, product_category = pd_category doc\<rparr>"

definition products_handleUpdate ::
  "products_screen \<Rightarrow> product_document promise \<Rightarrow> products_screen \<times> products_effect list" where
  "products_handleUpdate st patched =
     (case editingProduct st of
        None \<Rightarrow> (st, [])
      | Some ep \<Rightarrow>
          if product_id ep = [] then (st, [])
          else
            (case patched of
               Resolved updated \<Rightarrow>
                 (products_handleCancel
                    (st\<lparr>products :=
                          map (\<lambda>prod. if product_id prod = product_id ep
                                       then mappedProduct updated (imagePreview st) else prod)
                              (products st)\<rparr>),
                  [ClientPatch (product_id ep) (products_formState st)])
             | Rejected \<Rightarrow>
                 (st, [ClientPatch (product_id ep) (products_formState st),
                       Alert ''Failed to update product''])))"

text \<open>
  \<open>{_type: "product", ...formState, category: formState.category || "Chair"}\<close>
\<close>

definition newProductDocument :: "product_input \<Rightarrow> new_product_document" where
  "newProductDocument fs =
     \<lparr>np_type = ''product'',
      np_fields = fs\<lparr>pi_category := Some (or_default (pi_category fs) ''Chair'')\<rparr>\<rparr>"

text \<open>The create handler of the products screen: its body starts with the \<open>try\<close>.\<close>

definition products_handleAddNew ::
  "products_screen \<Rightarrow> product_document promise \<Rightarrow> products_screen \<times> products_effect list" where
  "products_handleAddNew st created =
     (case created of
        Resolved newProduct \<Rightarrow>
          (products_handleCancel
             (st\<lparr>products := products st @ [mappedProduct newProduct (imagePreview st)]\<rparr>),
           [ClientCreate (newProductDocument (products_formState st))])
      | Rejected \<Rightarrow>
          (st, [ClientCreate (newProductDocument (products_formState st)),
                Alert ''Failed to create product'']))"

definition products_isEditing :: "products_screen \<Rightarrow> bool" where
  "products_isEditing st = (editingProduct st \<noteq> None)"


text \<open>
  The values the controlled inputs of the product form show: \<open>formState.name || ""\<close>,
  \<open>formState.price || ""\<close>, \<open>formState.stockLevel || 0\<close>,
  \<open>formState.discountPercentage || 0\<close>.
\<close>

definition shown_name :: "product_input \<Rightarrow> string" where
  "shown_name fs = or_default (pi_name fs) []"

definition shown_price :: "product_input \<Rightarrow> string" where
  "shown_price fs = or_default (pi_price fs) []"

definition shown_stockLevel :: "product_input \<Rightarrow> int" where
  "shown_stockLevel fs = (case pi_stockLevel fs of None \<Rightarrow> 0 | Some n \<Rightarrow> if n = 0 then 0 else n)"

definition shown_discountPercentage :: "product_input \<Rightarrow> int" where
  "shown_discountPercentage fs =
     (case pi_discountPercentage fs of None \<Rightarrow> 0 | Some n \<Rightarrow> if n = 0 then 0 else n)"

text \<open>
  The constraints the markup puts on the inputs of the product form: \<open>required\<close> on name,
  price, stock level and category, \<open>min="0"\<close> on stock level, \<open>min="0" max="100"\<close> on
  the discount. A text input marked \<open>required\<close> is valid when its value is not empty. The
  stock level input shows a number and the category select shows \<open>formState.category ||
  "Chair"\<close>, so neither is ever empty.
\<close>

definition products_form_valid :: "product_input \<Rightarrow> bool" where
  "products_form_valid fs =
     (shown_name fs \<noteq> [] \<and> shown_price fs \<noteq> [] \<and> 0 \<le> shown_stockLevel fs
      \<and> 0 \<le> shown_discountPercentage fs \<and> shown_discountPercentage fs \<le> 100)"

text \<open>
  Pressing the submit button of the product form. The browser checks the constraints of
  the inputs first and dispatches the \<open>submit\<close> event only when all of them hold; the event
  runs \<open>isEditing ? handleUpdate : handleAddNew\<close>.
\<close>

definition products_submit ::
  "products_screen \<Rightarrow> product_document promise \<Rightarrow> product_document promise
     \<Rightarrow> products_screen \<times> products_effect list" where
  "products_submit st patched created =
     (if \<not> products_form_valid (products_formState st) then (st, [])
      else if products_isEditing st then products_handleUpdate st patched
      else products_handleAddNew st created)"


section \<open>Clean product ids\<close>

text \<open>
  An id that survives the trip through the comma-separated text field of the order form:
  not empty, no comma, no white space at either end.
\<close>

definition clean_id :: "string \<Rightarrow> bool" where
  "clean_id i = (i \<noteq> [] \<and> CHR '','' \<notin> set i \<and> \<not> js_is_space (hd i) \<and> \<not> js_is_space (last i))"


section \<open>Sample data\<close>

definition msg_jan :: message where
  "msg_jan = \<lparr>msg_id = ''m1'', msg_name = ''Ann'', msg_email = ''ann@example.com'',
              msg_message = ''hello'', msg_createdAt = ''2024-01-01T10:00:00Z'', msg_pinned = True\<rparr>"

definition msg_feb :: message where
  "msg_feb = \<lparr>msg_id = ''m2'', msg_name = ''Bob'', msg_email = ''bob@example.com'',
              msg_message = ''hi'', msg_createdAt = ''2024-02-01T10:00:00Z'', msg_pinned = False\<rparr>"

text \<open>Six messages in the order of the query: three pinned, then three unpinned.\<close>

definition msg_sep :: message where
  "msg_sep = \<lparr>msg_id = ''m3'', msg_name = ''Cy'', msg_email = ''cy@example.com'',
              msg_message = ''one'', msg_createdAt = ''2024-09-01T10:00:00Z'', msg_pinned = True\<rparr>"

definition msg_aug :: message where
  "msg_aug = \<lparr>msg_id = ''m4'', msg_name = ''Di'', msg_email = ''di@example.com'',
              msg_message = ''two'', msg_createdAt = ''2024-08-01T10:00:00Z'', msg_pinned = True\<rparr>"

definition msg_jul :: message where
  "msg_jul = \<lparr>msg_id = ''m5'', msg_name = ''Ed'', msg_email = ''ed@example.com'',
              msg_message = ''three'', msg_createdAt = ''2024-07-01T10:00:00Z'', msg_pinned = True\<rparr>"

definition msg_jun :: message where
  "msg_jun = \<lparr>msg_id = ''m6'', msg_name = ''Flo'', msg_email = ''flo@example.com'',
              msg_message = ''four'', msg_createdAt = ''2024-06-01T10:00:00Z'', msg_pinned = False\<rparr>"

definition msg_may :: message where
  "msg_may = \<lparr>msg_id = ''m7'', msg_name = ''Gus'', msg_email = ''gus@example.com'',
              msg_message = ''five'', msg_createdAt = ''2024-05-01T10:00:00Z'', msg_pinned = False\<rparr>"

definition msg_apr :: message where
  "msg_apr = \<lparr>msg_id = ''m8'', msg_name = ''Hal'', msg_email = ''hal@example.com'',
              msg_message = ''six'', msg_createdAt = ''2024-04-01T10:00:00Z'', msg_pinned = False\<rparr>"

definition inbox :: "message list" where
  "inbox = [msg_sep, msg_aug, msg_jul, msg_jun, msg_may, msg_apr]"

definition addr_demo :: address where
  "addr_demo = \<lparr>addr_street = ''1 Main St'', addr_city = ''Lahore'', addr_state = ''Punjab'',
                addr_country = ''PK'', addr_postalCode = ''54000''\<rparr>"

definition user_ann :: user where
  "user_ann = \<lparr>user_id = ''u1'', user_name = ''Ann'', user_email = ''ann@example.com'',
               user_mobileNumber = ''0300'', user_password = ''pw'', user_address = addr_demo,
               user_isVerified = True, user_role = ''admin''\<rparr>"

definition user_bob :: user where
  "user_bob = \<lparr>user_id = ''u2'', user_name = ''Bob'', user_email = ''bob@example.com'',
               user_mobileNumber = ''0301'', user_password = ''pw2'', user_address = addr_demo,
               user_isVerified = False, user_role = ''user''\<rparr>"

definition form_bob :: user_input where
  "form_bob = \<lparr>ui_id = None, ui_name = Some ''Bob'', ui_email = Some ''bob@example.com'',
               ui_mobileNumber = Some ''0301'', ui_password = Some ''pw2'',
               ui_address = Some \<lparr>ai_street = Some ''1 Main St'', ai_city = Some ''Lahore'',
                                  ai_state = Some ''Punjab'', ai_country = Some ''PK'',
                                  ai_postalCode = Some ''54000''\<rparr>,
               ui_isVerified = None, ui_role = Some []\<rparr>"

definition order_one :: order where
  "order_one = \<lparr>order_id = ''o1'', order_fullName = ''Ann'', order_email = ''ann@example.com'',
                order_phone = ''0300'', order_address = ''1 Main St'', order_city = ''Lahore'',
                order_postalCode = ''54000'', order_country = ''PK'',
                order_paymentMethod = ''cash'', order_paymentStatus = ''cash on delivery'',
                order_amount = 120, order_createdAt = ''2024-01-05T09:00'',
                order_status = ''pending'',
                order_cartItems =
                  [\<lparr>ci_quantity = 2, ci_product = \<lparr>pr_id = ''p1'', pr_name = ''Chair A'', pr_imageUrl = []\<rparr>\<rparr>,
                   \<lparr>ci_quantity = 1, ci_product = \<lparr>pr_id = ''p2'', pr_name = ''Sofa B'', pr_imageUrl = []\<rparr>\<rparr>]\<rparr>"

definition product_old :: product where
  "product_old = \<lparr>product_id = ''p1'', product_name = ''Chair A'', product_image = None,
                  product_price = ''10'', product_description = [], product_discountPercentage = 0,
                  product_isFeaturedProduct = False, product_stockLevel = 3,
                  product_category = ''Chair''\<rparr>"

definition doc_chair :: product_document where
  "doc_chair = \<lparr>pd_id = ''p5'', pd_name = ''Chair A'', pd_price = ''10'', pd_description = [],
                pd_discountPercentage = 0, pd_isFeaturedProduct = False, pd_stockLevel = 0,
                pd_category = ''Chair''\<rparr>"

text \<open>A product as the query of \<open>fetchProducts\<close> returns it.\<close>

definition fetched_sofa :: sanity_product where
  "fetched_sofa = \<lparr>pd_id = ''p9'', pd_name = ''Sofa B'', pd_price = ''250'', pd_description = ''wide'',
                   pd_discountPercentage = 5, pd_isFeaturedProduct = True, pd_stockLevel = 4,
                   pd_category = ''Sofa'', sp_imageUrl = ''https://cdn.example.com/sofa.png''\<rparr>"

text \<open>
  The add form of the products screen with a name and a price typed in and the stock
  level input left as it is.
\<close>

definition form_chair :: product_input where
  "form_chair = product_input_empty\<lparr>pi_name := Some ''Chair A'', pi_price := Some ''10'',
                                      pi_category := Some ''Chair''\<rparr>"

definition pst_add_chair :: products_screen where
  "pst_add_chair = (products_openAddForm products_initial)\<lparr>products_formState := form_chair\<rparr>"

definition doc_new :: product_document where
  "doc_new = \<lparr>pd_id = ''p9'', pd_name = ''Sofa B'', pd_price = ''250'', pd_description = ''wide'',
              pd_discountPercentage = 5, pd_isFeaturedProduct = True, pd_stockLevel = 4,
              pd_category = ''Sofa''\<rparr>"

text \<open>The users screen with Ann's card opened for editing.\<close>

definition ust_edit :: users_screen where
  "ust_edit = users_handleEditClick (users_initial\<lparr>users := [user_ann, user_bob]\<rparr>) user_ann"

text \<open>The users screen with the add form open and Bob's data typed in.\<close>

definition ust_add :: users_screen where
  "ust_add = (users_openAddForm (users_initial\<lparr>users := [user_ann]\<rparr>))\<lparr>users_formState := form_bob\<rparr>"

text \<open>The orders screen with the pending order opened for editing.\<close>

definition ost_edit :: orders_screen where
  "ost_edit = orders_handleEditClick (orders_initial\<lparr>orders := [order_one]\<rparr>) order_one"

text \<open>The same edit form after the text of the cart items field was retyped.\<close>

definition retyped_items :: string where
  "retyped_items = CHR 0xA0 # ''p1'' @ [CHR 0xA0] @ '', p7_ '' @ [CHR 0x09] @ '',,'' @ [CHR 0x0A]"

definition form_edit_one :: order_input where
  "form_edit_one = (orders_formState ost_edit)\<lparr>of_cartItems := Some retyped_items\<rparr>"



section \<open>Lists ordered by a relation\<close>

lemma sorted_wrt_all_pairs: "(\<And>x y. x \<in> set xs \<Longrightarrow> y \<in> set xs \<Longrightarrow> P x y) \<Longrightarrow> sorted_wrt P xs"
  by (induction xs) auto

lemma rendered_pinned_first: "pinned_first (rendered_messages st)"
  unfolding pinned_first_def rendered_messages_def pinnedMessages_def unpinnedMessages_def
  by (auto simp: sorted_wrt_append intro!: sorted_wrt_all_pairs)

lemma pinned_after_unpin:
  "\<not> b \<Longrightarrow> filter (\<lambda>m. msg_pinned m)
     (map (\<lambda>msg. if msg_id msg = ident then msg\<lparr>msg_pinned := b\<rparr> else msg) ms)
   = filter (\<lambda>m. msg_id m \<noteq> ident) (filter (\<lambda>m. msg_pinned m) ms)"
  by (induction ms) auto

lemma unpinned_after_pin:
  "b \<Longrightarrow> filter (\<lambda>m. \<not> msg_pinned m)
     (map (\<lambda>msg. if msg_id msg = ident then msg\<lparr>msg_pinned := b\<rparr> else msg) ms)
   = filter (\<lambda>m. msg_id m \<noteq> ident) (filter (\<lambda>m. \<not> msg_pinned m) ms)"
  by (induction ms) auto

lemma filter_swap: "filter P (filter Q xs) = filter Q (filter P xs)"
  by (induction xs) auto

lemma step_keeps_pinned_group:
  assumes "newest_first (pinnedMessages st)" "\<not> reply_pins a"
  shows "newest_first (pinnedMessages (messages_step st a))"
proof (cases a)
  case (ClickPin ident cur patched)
  show ?thesis
  proof (cases patched)
    case Rejected
    with ClickPin assms show ?thesis by (simp add: togglePin_def)
  next
    case (Resolved updated)
    with ClickPin assms have "\<not> msg_pinned updated" by simp
    then have "pinnedMessages (messages_step st a)
               = filter (\<lambda>m. msg_id m \<noteq> ident) (pinnedMessages st)"
      using ClickPin Resolved
      by (simp add: togglePin_def pinnedMessages_def pinned_after_unpin)
    then show ?thesis
      using assms(1) by (simp only: newest_first_def sorted_wrt_filter)
  qed
next
  case (ClickDelete ident confirmed deleted)
  have "newest_first (filter (\<lambda>m. msg_id m \<noteq> ident) (pinnedMessages st))"
    using assms(1) by (simp add: newest_first_def sorted_wrt_filter)
  then have "newest_first (filter (\<lambda>m. msg_pinned m) (filter (\<lambda>m. msg_id m \<noteq> ident) (messages st)))"
    unfolding pinnedMessages_def by (subst filter_swap)
  with ClickDelete assms(1) show ?thesis
    by (cases deleted) (simp_all add: messages_handleDelete_def pinnedMessages_def)
qed

lemma step_keeps_unpinned_group:
  assumes "newest_first (unpinnedMessages st)" "\<not> reply_unpins a"
  shows "newest_first (unpinnedMessages (messages_step st a))"
proof (cases a)
  case (ClickPin ident cur patched)
  show ?thesis
  proof (cases patched)
    case Rejected
    with ClickPin assms show ?thesis by (simp add: togglePin_def)
  next
    case (Resolved updated)
    with ClickPin assms have "msg_pinned updated" by simp
    then have "unpinnedMessages (messages_step st a)
               = filter (\<lambda>m. msg_id m \<noteq> ident) (unpinnedMessages st)"
      using ClickPin Resolved
      by (simp add: togglePin_def unpinnedMessages_def unpinned_after_pin)
    then show ?thesis
      using assms(1) by (simp only: newest_first_def sorted_wrt_filter)
  qed
next
  case (ClickDelete ident confirmed deleted)
  have "newest_first (filter (\<lambda>m. msg_id m \<noteq> ident) (unpinnedMessages st))"
    using assms(1) by (simp add: newest_first_def sorted_wrt_filter)
  then have "newest_first (filter (\<lambda>m. \<not> msg_pinned m) (filter (\<lambda>m. msg_id m \<noteq> ident) (messages st)))"
    unfolding unpinnedMessages_def by (subst filter_swap)
  with ClickDelete assms(1) show ?thesis
    by (cases deleted) (simp_all add: messages_handleDelete_def unpinnedMessages_def)
qed

lemma run_keeps_pinned_group:
  "newest_first (pinnedMessages st) \<Longrightarrow> \<forall>a \<in> set acts. \<not> reply_pins a \<Longrightarrow>
   newest_first (pinnedMessages (messages_run st acts))"
  unfolding messages_run_def
  by (induction acts arbitrary: st) (simp_all add: step_keeps_pinned_group)

lemma run_keeps_unpinned_group:
  "newest_first (unpinnedMessages st) \<Longrightarrow> \<forall>a \<in> set acts. \<not> reply_unpins a \<Longrightarrow>
   newest_first (unpinnedMessages (messages_run st acts))"
  unfolding messages_run_def
  by (induction acts arbitrary: st) (simp_all add: step_keeps_unpinned_group)

lemma query_ordered_groups:
  assumes "query_ordered ms"
  shows "newest_first (filter (\<lambda>m. msg_pinned m) ms)" "newest_first (filter (\<lambda>m. \<not> msg_pinned m) ms)"
proof -
  let ?R = "\<lambda>a b. (msg_pinned a \<and> \<not> msg_pinned b)
                      \<or> (msg_pinned a = msg_pinned b \<and> msg_createdAt b \<le> msg_createdAt a)"
  have p: "sorted_wrt ?R (filter (\<lambda>m. msg_pinned m) ms)"
    using assms by (simp add: query_ordered_def sorted_wrt_filter)
  have u: "sorted_wrt ?R (filter (\<lambda>m. \<not> msg_pinned m) ms)"
    using assms by (simp add: query_ordered_def sorted_wrt_filter)
  show "newest_first (filter (\<lambda>m. msg_pinned m) ms)"
    unfolding newest_first_def by (rule sorted_wrt_mono_rel [OF _ p]) auto
  show "newest_first (filter (\<lambda>m. \<not> msg_pinned m) ms)"
    unfolding newest_first_def by (rule sorted_wrt_mono_rel [OF _ u]) auto
qed


section \<open>Splitting, trimming and joining\<close>

lemma js_split_not_Nil: "js_split sep s \<noteq> []"
  by (induction s) (auto split: list.splits)

lemma js_split_join: "js_join [sep] (js_split sep s) = s"
proof (induction s)
  case Nil
  show ?case by simp
next
  case (Cons c cs)
  obtain p ps where sp: "js_split sep cs = p # ps"
    using js_split_not_Nil [of sep cs] by (cases "js_split sep cs") auto
  show ?case
  proof (cases "c = sep")
    case True
    with Cons sp show ?thesis by simp
  next
    case False
    with Cons sp show ?thesis by (cases ps) simp_all
  qed
qed

lemma js_split_pieces: "p \<in> set (js_split sep s) \<Longrightarrow> sep \<notin> set p"
  by (induction s arbitrary: p) (auto split: if_splits list.splits)

lemma js_trim_decompose:
  "s = takeWhile js_is_space s @ js_trim s @ rev (takeWhile js_is_space (rev (dropWhile js_is_space s)))"
proof -
  let ?t = "dropWhile js_is_space s"
  have "rev (takeWhile js_is_space (rev ?t) @ dropWhile js_is_space (rev ?t)) = ?t"
    by (simp only: takeWhile_dropWhile_id rev_rev_ident)
  then have "?t = js_trim s @ rev (takeWhile js_is_space (rev ?t))"
    by (simp only: rev_append js_trim_def)
  moreover have "s = takeWhile js_is_space s @ ?t" by simp
  ultimately show ?thesis by metis
qed

lemma js_trim_ends:
  assumes "js_trim s \<noteq> []"
  shows "\<not> js_is_space (hd (js_trim s)) \<and> \<not> js_is_space (last (js_trim s))"
proof -
  let ?t = "dropWhile js_is_space s"
  let ?r = "dropWhile js_is_space (rev ?t)"
  have r: "?r \<noteq> []" using assms by (simp add: js_trim_def)
  then have t: "?t \<noteq> []" by (auto dest: set_dropWhileD)
  have "last (js_trim s) = hd ?r" using r by (simp add: js_trim_def last_rev)
  moreover have "\<not> js_is_space (hd ?r)" using r by (simp add: hd_dropWhile)
  moreover have "hd (js_trim s) = last ?r" using r by (simp add: js_trim_def hd_rev)
  moreover have "last ?r = last (rev ?t)" using r by (metis last_appendR takeWhile_dropWhile_id)
  moreover have "last (rev ?t) = hd ?t" using t by (simp add: last_rev)
  moreover have "\<not> js_is_space (hd ?t)" using t by (simp add: hd_dropWhile)
  ultimately show ?thesis by simp
qed

lemma js_trim_space_Cons: "js_is_space c \<Longrightarrow> js_trim (c # s) = js_trim s"
  by (simp add: js_trim_def)

lemma js_trim_clean:
  assumes "s \<noteq> []" "\<not> js_is_space (hd s)" "\<not> js_is_space (last s)"
  shows "js_trim s = s"
proof -
  have d: "dropWhile js_is_space s = s" using assms by (cases s) auto
  have "dropWhile js_is_space (rev s) = rev s"
    using assms by (cases "rev s") (auto simp: last_rev [symmetric] hd_rev)
  with d show ?thesis by (simp add: js_trim_def)
qed

lemma js_split_no_sep: "sep \<notin> set s \<Longrightarrow> js_split sep s = [s]"
  by (induction s) auto

lemma js_split_append_sep:
  "sep \<notin> set s \<Longrightarrow> js_split sep (s @ sep # rest) = s # js_split sep rest"
  by (induction s) auto

lemma map_trim_split_space:
  "js_is_space c \<Longrightarrow> c \<noteq> sep \<Longrightarrow>
   map js_trim (js_split sep (c # s)) = map js_trim (js_split sep s)"
  using js_split_not_Nil [of sep s]
  by (cases "js_split sep s") (auto simp: js_trim_space_Cons)

lemma join_nonempty: "ids \<noteq> [] \<Longrightarrow> \<forall>i \<in> set ids. i \<noteq> [] \<Longrightarrow> js_join sep ids \<noteq> []"
  by (induction sep ids rule: js_join.induct) auto

lemma split_join_ids:
  "ids \<noteq> [] \<Longrightarrow> \<forall>i \<in> set ids. clean_id i \<Longrightarrow>
   map js_trim (js_split CHR '','' (js_join '', '' ids)) = ids"
proof (induction "'', ''" ids rule: js_join.induct)
  case 1
  then show ?case by simp
next
  case (2 x)
  then show ?case by (simp add: clean_id_def js_split_no_sep js_trim_clean)
next
  case (3 x y ys)
  have x: "CHR '','' \<notin> set x" "js_trim x = x" using 3(3) by (simp_all add: clean_id_def js_trim_clean)
  have sp: "js_is_space CHR '' ''" by (simp add: js_is_space_def)
  have "js_split CHR '','' (js_join '', '' (x # y # ys))
        = x # js_split CHR '','' (CHR '' '' # js_join '', '' (y # ys))"
    using js_split_append_sep [OF x(1), of "CHR '' '' # js_join '', '' (y # ys)"] by simp
  then show ?case using 3 x(2) map_trim_split_space [OF sp, of "CHR '',''"] by simp
qed


section \<open>The claims\<close>

text \<open>
  C1: the code at the input that breaks it. The add form of the products screen is open,
  a name and a price are typed in, the stock level input is left as it is. The buffer has
  no stock level, but the input shows \<open>formState.stockLevel || 0\<close>, so its
  \<open>required\<close> constraint holds and the form is valid. Pressing the submit button runs
  the create handler, which checks nothing: it issues the backend create call, with a
  document that has no stock level, and shows no alert.
\<close>

theorem products_submit_without_stockLevel:
  "pi_stockLevel (products_formState pst_add_chair) = None \<and>
   shown_stockLevel (products_formState pst_add_chair) = 0 \<and>
   products_form_valid (products_formState pst_add_chair) \<and>
   snd (products_submit pst_add_chair Rejected (Resolved doc_chair))
     = [ClientCreate \<lparr>np_type = ''product'', np_fields = form_chair\<rparr>] \<and>
   pi_stockLevel form_chair = None \<and>
   list_ex is_create (snd (products_submit pst_add_chair Rejected (Resolved doc_chair))) \<and>
   \<not> list_ex is_alert (snd (products_submit pst_add_chair Rejected (Resolved doc_chair))) \<and>
   map product_id (products (fst (products_submit pst_add_chair Rejected (Resolved doc_chair))))
     = [''p5'']"
  by (simp add: pst_add_chair_def form_chair_def products_openAddForm_def products_initial_def
        product_input_empty_def products_submit_def products_form_valid_def shown_name_def
        shown_price_def shown_stockLevel_def shown_discountPercentage_def products_isEditing_def
        products_handleAddNew_def newProductDocument_def products_handleCancel_def
        mappedProduct_def doc_chair_def)

text \<open>
  C2, as stated, fails. The backend answers a load with a pinned message of January and an
  unpinned one of February, in the order of the query. Pinning the February message leaves
  it where it is in the local list, so the pinned group shows January above February: not
  newest first.
\<close>

theorem messages_newest_first_counterexample:
  "query_ordered [msg_jan, msg_feb] \<and>
   pinnedMessages (messages_run (messages_loaded [msg_jan, msg_feb]) [ClickPin ''m2'' False (Resolved (msg_feb\<lparr>msg_pinned := True\<rparr>))])
     = [msg_jan, msg_feb\<lparr>msg_pinned := True\<rparr>] \<and>
   \<not> newest_first (pinnedMessages (messages_run (messages_loaded [msg_jan, msg_feb]) [ClickPin ''m2'' False (Resolved (msg_feb\<lparr>msg_pinned := True\<rparr>))]))"
  by (simp add: query_ordered_def newest_first_def pinnedMessages_def messages_run_def messages_loaded_def
      fetchMessages_def togglePin_def messages_initial_def msg_jan_def msg_feb_def)

text \<open>
  C2, amended. In every state reached by a load followed by any sequence of pin toggles and
  deletes, all pinned messages are rendered before all unpinned ones. The pinned group is
  newest first as long as no toggle has succeeded with a pinned reply, and the unpinned
  group is newest first as long as no toggle has succeeded with an unpinned reply: deletes,
  declined deletes, failed calls and toggles out of a group keep the order of the query in
  it. A toggle changes the flag in place: the ids of the local list stay at their
  positions.
\<close>

theorem messages_render_order:
  assumes "query_ordered data"
  shows "pinned_first (rendered_messages (messages_run (messages_loaded data) acts)) \<and>
         ((\<forall>a \<in> set acts. \<not> reply_pins a) \<longrightarrow>
            newest_first (pinnedMessages (messages_run (messages_loaded data) acts))) \<and>
         ((\<forall>a \<in> set acts. \<not> reply_unpins a) \<longrightarrow>
            newest_first (unpinnedMessages (messages_run (messages_loaded data) acts))) \<and>
         map msg_id (messages (fst (togglePin st ident currentPinned patched)))
           = map msg_id (messages st)"
proof -
  have l: "query_ordered (messages (messages_loaded data))"
    using assms by (simp add: messages_loaded_def fetchMessages_def)
  have p0: "newest_first (pinnedMessages (messages_loaded data))"
    and u0: "newest_first (unpinnedMessages (messages_loaded data))"
    using query_ordered_groups [OF l] by (simp_all add: pinnedMessages_def unpinnedMessages_def)
  have p: "(\<forall>a \<in> set acts. \<not> reply_pins a) \<longrightarrow>
            newest_first (pinnedMessages (messages_run (messages_loaded data) acts))"
    using run_keeps_pinned_group [OF p0] by blast
  have u: "(\<forall>a \<in> set acts. \<not> reply_unpins a) \<longrightarrow>
            newest_first (unpinnedMessages (messages_run (messages_loaded data) acts))"
    using run_keeps_unpinned_group [OF u0] by blast
  have k: "map msg_id (messages (fst (togglePin st ident currentPinned patched)))
           = map msg_id (messages st)"
    by (cases patched) (simp_all add: togglePin_def comp_def)
  from p u k rendered_pinned_first show ?thesis by blast
qed

text \<open>
  The six messages of the sample inbox. Deleting the second pinned message and pinning the
  first unpinned one leaves two messages in the unpinned group, newest first, and four
  cards with the pinned ones on top. Unpinning the second pinned message leaves two
  messages in the pinned group, newest first.
\<close>

theorem messages_render_order_witness:
  "query_ordered inbox \<and>
   \<not> reply_unpins (ClickDelete ''m4'' True (Resolved ())) \<and>
   \<not> reply_unpins (ClickPin ''m6'' False (Resolved (msg_jun\<lparr>msg_pinned := True\<rparr>))) \<and>
   unpinnedMessages (messages_run (messages_loaded inbox)
       [ClickDelete ''m4'' True (Resolved ()),
        ClickPin ''m6'' False (Resolved (msg_jun\<lparr>msg_pinned := True\<rparr>))])
     = [msg_may, msg_apr] \<and>
   newest_first [msg_may, msg_apr] \<and>
   rendered_messages (messages_run (messages_loaded inbox)
       [ClickDelete ''m4'' True (Resolved ()),
        ClickPin ''m6'' False (Resolved (msg_jun\<lparr>msg_pinned := True\<rparr>))])
     = [msg_sep, msg_jul, msg_jun\<lparr>msg_pinned := True\<rparr>, msg_may, msg_apr] \<and>
   pinned_first [msg_sep, msg_jul, msg_jun\<lparr>msg_pinned := True\<rparr>, msg_may, msg_apr] \<and>
   \<not> reply_pins (ClickPin ''m4'' True (Resolved (msg_aug\<lparr>msg_pinned := False\<rparr>))) \<and>
   pinnedMessages (messages_run (messages_loaded inbox)
       [ClickPin ''m4'' True (Resolved (msg_aug\<lparr>msg_pinned := False\<rparr>))])
     = [msg_sep, msg_jul] \<and>
   newest_first [msg_sep, msg_jul] \<and>
   map msg_id (messages (fst (togglePin (messages_loaded inbox) ''m4'' True
                                 (Resolved (msg_aug\<lparr>msg_pinned := False\<rparr>)))))
     = [''m3'', ''m4'', ''m5'', ''m6'', ''m7'', ''m8'']"
proof -
  let ?a = "[ClickDelete ''m4'' True (Resolved ()),
             ClickPin ''m6'' False (Resolved (msg_jun\<lparr>msg_pinned := True\<rparr>))]"
  let ?b = "[ClickPin ''m4'' True (Resolved (msg_aug\<lparr>msg_pinned := False\<rparr>))]"
  have q: "query_ordered inbox"
    by (simp add: query_ordered_def inbox_def msg_sep_def msg_aug_def msg_jul_def msg_jun_def
          msg_may_def msg_apr_def)
  have ids: "msg_id msg_sep = ''m3''" "msg_id msg_aug = ''m4''" "msg_id msg_jul = ''m5''"
    "msg_id msg_jun = ''m6''" "msg_id msg_may = ''m7''" "msg_id msg_apr = ''m8''"
    by (simp_all add: msg_sep_def msg_aug_def msg_jul_def msg_jun_def msg_may_def msg_apr_def)
  have fl: "msg_pinned msg_sep" "msg_pinned msg_aug" "msg_pinned msg_jul"
    "\<not> msg_pinned msg_jun" "\<not> msg_pinned msg_may" "\<not> msg_pinned msg_apr"
    by (simp_all add: msg_sep_def msg_aug_def msg_jul_def msg_jun_def msg_may_def msg_apr_def)
  have ma: "messages (messages_run (messages_loaded inbox) ?a)
            = [msg_sep, msg_jul, msg_jun\<lparr>msg_pinned := True\<rparr>, msg_may, msg_apr]"
    by (simp add: messages_run_def messages_loaded_def fetchMessages_def inbox_def
          messages_handleDelete_def togglePin_def ids)
  have mb: "messages (messages_run (messages_loaded inbox) ?b)
            = [msg_sep, msg_aug\<lparr>msg_pinned := False\<rparr>, msg_jul, msg_jun, msg_may, msg_apr]"
    by (simp add: messages_run_def messages_loaded_def fetchMessages_def inbox_def
          togglePin_def ids)
  have ua: "unpinnedMessages (messages_run (messages_loaded inbox) ?a) = [msg_may, msg_apr]"
    by (simp add: unpinnedMessages_def ma fl)
  have ra: "rendered_messages (messages_run (messages_loaded inbox) ?a)
            = [msg_sep, msg_jul, msg_jun\<lparr>msg_pinned := True\<rparr>, msg_may, msg_apr]"
    by (simp add: rendered_messages_def pinnedMessages_def unpinnedMessages_def ma fl)
  have pb: "pinnedMessages (messages_run (messages_loaded inbox) ?b) = [msg_sep, msg_jul]"
    by (simp add: pinnedMessages_def mb fl)
  have li': "map msg_id (messages (messages_loaded inbox))
             = [''m3'', ''m4'', ''m5'', ''m6'', ''m7'', ''m8'']"
    by (simp add: messages_loaded_def fetchMessages_def inbox_def ids)
  note ta = messages_render_order [OF q, of ?a "messages_loaded inbox" "''m4''" True
                                     "Resolved (msg_aug\<lparr>msg_pinned := False\<rparr>)"]
  note tb = messages_render_order [OF q, of ?b "messages_loaded inbox" "''m4''" True
                                     "Resolved (msg_aug\<lparr>msg_pinned := False\<rparr>)"]
  have na: "newest_first [msg_may, msg_apr]" using ta ua by simp
  have fa: "pinned_first [msg_sep, msg_jul, msg_jun\<lparr>msg_pinned := True\<rparr>, msg_may, msg_apr]"
    using ta ra by simp
  have nb: "newest_first [msg_sep, msg_jul]" using tb pb fl by simp
  have kb: "map msg_id (messages (fst (togglePin (messages_loaded inbox) ''m4'' True
                                 (Resolved (msg_aug\<lparr>msg_pinned := False\<rparr>)))))
            = [''m3'', ''m4'', ''m5'', ''m6'', ''m7'', ''m8'']"
    using tb li' by simp
  show ?thesis using q ua ra pb na fa nb kb by simp
qed

text \<open>
  C3, as stated, fails on the products screen. There a successful delete is followed by a
  refetch instead of a local removal; when the refetch fails the local list keeps the
  deleted record.
\<close>

theorem products_delete_refetch_counterexample:
  "products (fst (products_handleDelete (products_initial\<lparr>products := [product_old]\<rparr>) ''p1'' True
                    (Resolved ()) Rejected)) = [product_old] \<and>
   product_id product_old = ''p1''"
  by (simp add: products_handleDelete_def fetchProducts_def product_old_def)

text \<open>
  C3, amended. On the messages, users and orders screens a confirmed delete whose backend
  call succeeds leaves no record with that id in the local list and keeps every other
  record; when the call fails the state is what it was. On the products screen a confirmed
  delete whose backend call succeeds refetches: the local list becomes the list the backend
  answers with, or stays as it was when the refetch fails; when the delete call fails the
  state is what it was.
\<close>

theorem delete_reconciles_local_list:
  "ident \<notin> msg_id ` set (messages (fst (messages_handleDelete mst ident True (Resolved ())))) \<and>
   (\<forall>m. msg_id m \<noteq> ident \<longrightarrow>
        (m \<in> set (messages (fst (messages_handleDelete mst ident True (Resolved ()))))) = (m \<in> set (messages mst))) \<and>
   fst (messages_handleDelete mst ident True Rejected) = mst \<and>
   ident \<notin> user_id ` set (users (fst (users_handleDelete ust ident True (Resolved ())))) \<and>
   (\<forall>u. user_id u \<noteq> ident \<longrightarrow>
        (u \<in> set (users (fst (users_handleDelete ust ident True (Resolved ()))))) = (u \<in> set (users ust))) \<and>
   fst (users_handleDelete ust ident True Rejected) = ust \<and>
   ident \<notin> order_id ` set (orders (fst (orders_handleDelete ost ident True (Resolved ())))) \<and>
   (\<forall>ord. order_id ord \<noteq> ident \<longrightarrow>
        (ord \<in> set (orders (fst (orders_handleDelete ost ident True (Resolved ()))))) = (ord \<in> set (orders ost))) \<and>
   fst (orders_handleDelete ost ident True Rejected) = ost \<and>
   products (fst (products_handleDelete pst ident True (Resolved ()) (Resolved data)))
     = map (\<lambda>doc. \<lparr>product_id = pd_id doc, product_name = pd_name doc,
                     product_image = Some \<lparr>asset_ref = None, asset_url = sp_imageUrl doc\<rparr>,
                     product_price = pd_price doc, product_description = pd_description doc,
                     product_discountPercentage = pd_discountPercentage doc,
                     product_isFeaturedProduct = pd_isFeaturedProduct doc,
                     product_stockLevel = pd_stockLevel doc,
                     product_category = pd_category doc\<rparr>) data \<and>
   map product_id (products (fst (products_handleDelete pst ident True (Resolved ()) (Resolved data))))
     = map pd_id data \<and>
   products (fst (products_handleDelete pst ident True (Resolved ()) Rejected)) = products pst \<and>
   fst (products_handleDelete pst ident True Rejected fetched) = pst"
  by (auto simp: messages_handleDelete_def users_handleDelete_def orders_handleDelete_def
        products_handleDelete_def fetchProducts_def comp_def)

theorem delete_reconciles_local_list_witness:
  "user_id user_bob \<noteq> ''u1'' \<and>
   ''u1'' \<notin> user_id ` set (users (fst (users_handleDelete (users_initial\<lparr>users := [user_ann, user_bob]\<rparr>)
                                            ''u1'' True (Resolved ())))) \<and>
   user_bob \<in> set (users (fst (users_handleDelete (users_initial\<lparr>users := [user_ann, user_bob]\<rparr>)
                                    ''u1'' True (Resolved ())))) \<and>
   map product_id (products (fst (products_handleDelete (products_initial\<lparr>products := [product_old]\<rparr>)
                                    ''p1'' True (Resolved ()) (Resolved [fetched_sofa]))))
     = [''p9''] \<and>
   map product_name (products (fst (products_handleDelete (products_initial\<lparr>products := [product_old]\<rparr>)
                                    ''p1'' True (Resolved ()) (Resolved [fetched_sofa]))))
     = [''Sofa B''] \<and>
   products (fst (products_handleDelete (products_initial\<lparr>products := [product_old]\<rparr>)
                    ''p1'' True Rejected (Resolved [fetched_sofa]))) = [product_old]"
proof -
  let ?u = "users_initial\<lparr>users := [user_ann, user_bob]\<rparr>"
  let ?p = "products_initial\<lparr>products := [product_old]\<rparr>"
  have t: "''u1'' \<notin> user_id ` set (users (fst (users_handleDelete ?u ''u1'' True (Resolved ())))) \<and>
     (\<forall>u. user_id u \<noteq> ''u1'' \<longrightarrow>
        (u \<in> set (users (fst (users_handleDelete ?u ''u1'' True (Resolved ()))))) = (u \<in> set (users ?u)))"
    using delete_reconciles_local_list
            [of "''u1''" messages_initial ?u orders_initial ?p "[fetched_sofa]"
                "Resolved [fetched_sofa]"]
    apply (elim conjE)
    apply (intro conjI)
    apply assumption
    apply assumption
    done
  have t': "products (fst (products_handleDelete ?p ''p1'' True (Resolved ()) (Resolved [fetched_sofa])))
       = map (\<lambda>doc. \<lparr>product_id = pd_id doc, product_name = pd_name doc,
                     product_image = Some \<lparr>asset_ref = None, asset_url = sp_imageUrl doc\<rparr>,
                     product_price = pd_price doc, product_description = pd_description doc,
                     product_discountPercentage = pd_discountPercentage doc,
                     product_isFeaturedProduct = pd_isFeaturedProduct doc,
                     product_stockLevel = pd_stockLevel doc,
                     product_category = pd_category doc\<rparr>) [fetched_sofa] \<and>
     map product_id (products (fst (products_handleDelete ?p ''p1'' True (Resolved ()) (Resolved [fetched_sofa]))))
       = map pd_id [fetched_sofa] \<and>
     fst (products_handleDelete ?p ''p1'' True Rejected (Resolved [fetched_sofa])) = ?p"
    using delete_reconciles_local_list
            [of "''p1''" messages_initial ?u orders_initial ?p "[fetched_sofa]"
                "Resolved [fetched_sofa]"]
    apply (elim conjE)
    apply (intro conjI)
    apply assumption
    apply assumption
    apply assumption
    done
  have b: "user_id user_bob \<noteq> ''u1''" by (simp add: user_bob_def)
  have c1: "''u1'' \<notin> user_id ` set (users (fst (users_handleDelete ?u ''u1'' True (Resolved ()))))"
    using t by blast
  have c2: "user_bob \<in> set (users (fst (users_handleDelete ?u ''u1'' True (Resolved ()))))"
  proof -
    from t b have "(user_bob \<in> set (users (fst (users_handleDelete ?u ''u1'' True (Resolved ())))))
                   = (user_bob \<in> set (users ?u))" by blast
    then show ?thesis by simp
  qed
  have c3: "map product_id (products (fst (products_handleDelete ?p ''p1'' True (Resolved ())
                                              (Resolved [fetched_sofa])))) = [''p9'']"
  proof -
    from t' have "map product_id (products (fst (products_handleDelete ?p ''p1'' True (Resolved ())
                                              (Resolved [fetched_sofa])))) = map pd_id [fetched_sofa]"
      by blast
    then show ?thesis by (simp add: fetched_sofa_def)
  qed
  have c4: "map product_name (products (fst (products_handleDelete ?p ''p1'' True (Resolved ())
                                              (Resolved [fetched_sofa])))) = [''Sofa B'']"
  proof -
    from t' have "products (fst (products_handleDelete ?p ''p1'' True (Resolved ()) (Resolved [fetched_sofa])))
       = map (\<lambda>doc. \<lparr>product_id = pd_id doc, product_name = pd_name doc,
                     product_image = Some \<lparr>asset_ref = None, asset_url = sp_imageUrl doc\<rparr>,
                     product_price = pd_price doc, product_description = pd_description doc,
                     product_discountPercentage = pd_discountPercentage doc,
                     product_isFeaturedProduct = pd_isFeaturedProduct doc,
                     product_stockLevel = pd_stockLevel doc,
                     product_category = pd_category doc\<rparr>) [fetched_sofa]"
      by blast
    then show ?thesis by (simp add: fetched_sofa_def)
  qed
  have c5: "products (fst (products_handleDelete ?p ''p1'' True Rejected (Resolved [fetched_sofa])))
            = [product_old]"
  proof -
    from t' have "fst (products_handleDelete ?p ''p1'' True Rejected (Resolved [fetched_sofa])) = ?p"
      by blast
    then show ?thesis by simp
  qed
  from b c1 c2 c3 c4 c5 show ?thesis by blast
qed

text \<open>
  C4: the code at the input that breaks it. A pending order is opened for editing, so the
  form buffer holds its status \<open>pending\<close>. "Complete" is pressed on the same card:
  the order is completed, locally and by a patch. Then the edit form is submitted: the patch
  carries the whole buffer, the stale status included, and the local record is replaced by
  the document the backend returns for that patch, whose status is \<open>pending\<close>
  again.
\<close>

theorem orders_stale_edit_reverts_completed:
  "map order_status (orders (fst (handleComplete ost_edit ''o1'' (Resolved ())))) = [''completed''] \<and>
   snd (orders_onSubmit (fst (handleComplete ost_edit ''o1'' (Resolved ()))) (Resolved order_one)
          ''2024-03-01T00:00:00.000Z'' Rejected Rejected)
     = [ClientPatch ''o1'' (SetFields (updateData (orders_formState ost_edit)))] \<and>
   of_status (updateData (orders_formState ost_edit)) = Some ''pending'' \<and>
   order_status order_one = ''pending'' \<and>
   map order_status
     (orders (fst (orders_onSubmit (fst (handleComplete ost_edit ''o1'' (Resolved ()))) (Resolved order_one)
                     ''2024-03-01T00:00:00.000Z'' Rejected Rejected))) = [''pending'']"
  by (simp add: ost_edit_def orders_handleEditClick_def handleComplete_def orders_onSubmit_def
        orders_isEditing_def orders_handleUpdate_def orders_handleCancel_def updateData_def
        spread_with_cartItems_def order_one_def orders_initial_def)

text \<open>
  C5. On the users and the orders screen, with a record open for editing: when the patch
  succeeds the local list keeps its length, every record whose id is the edited one is
  replaced by the document the backend returned and every other record is unchanged; when
  the patch fails the whole state, the local list included, is unchanged.
\<close>

theorem update_replaces_matching_record:
  "(editingUser ust = Some eu \<and> user_id eu \<noteq> [] \<longrightarrow>
      length (users (fst (users_handleUpdate ust (Resolved updated)))) = length (users ust) \<and>
      (\<forall>i < length (users ust).
          users (fst (users_handleUpdate ust (Resolved updated))) ! i
            = (if user_id (users ust ! i) = user_id eu then updated else users ust ! i)) \<and>
      fst (users_handleUpdate ust Rejected) = ust) \<and>
   (editingOrder ost = Some eo \<and> order_id eo \<noteq> [] \<longrightarrow>
      length (orders (fst (orders_handleUpdate ost (Resolved updated')))) = length (orders ost) \<and>
      (\<forall>i < length (orders ost).
          orders (fst (orders_handleUpdate ost (Resolved updated'))) ! i
            = (if order_id (orders ost ! i) = order_id eo then updated' else orders ost ! i)) \<and>
      fst (orders_handleUpdate ost Rejected) = ost)"
  by (simp add: users_handleUpdate_def orders_handleUpdate_def orders_handleCancel_def)

theorem update_replaces_matching_record_witness:
  "editingUser ust_edit = Some user_ann \<and> user_id user_ann \<noteq> [] \<and>
   editingOrder ost_edit = Some order_one \<and> order_id order_one \<noteq> [] \<and>
   (0::nat) < length (users ust_edit) \<and>
   users (fst (users_handleUpdate ust_edit (Resolved (user_ann\<lparr>user_name := ''Anna''\<rparr>))))
     = [user_ann\<lparr>user_name := ''Anna''\<rparr>, user_bob] \<and>
   fst (users_handleUpdate ust_edit Rejected) = ust_edit \<and>
   fst (orders_handleUpdate ost_edit Rejected) = ost_edit"
proof -
  have h: "editingUser ust_edit = Some user_ann \<and> user_id user_ann \<noteq> []"
          "editingOrder ost_edit = Some order_one \<and> order_id order_one \<noteq> []"
    by (simp_all add: ust_edit_def ost_edit_def users_handleEditClick_def orders_handleEditClick_def
          user_ann_def order_one_def)
  have u: "users ust_edit = [user_ann, user_bob]"
    by (simp add: ust_edit_def users_handleEditClick_def)
  have ids: "user_id user_ann = ''u1''" "user_id user_bob = ''u2''"
    by (simp_all add: user_ann_def user_bob_def)
  note t = update_replaces_matching_record [of ust_edit user_ann "user_ann\<lparr>user_name := ''Anna''\<rparr>" ost_edit order_one order_one]
  from t h have len: "length (users (fst (users_handleUpdate ust_edit (Resolved (user_ann\<lparr>user_name := ''Anna''\<rparr>))))) = 2"
    by (simp add: u)
  from t h have n0: "users (fst (users_handleUpdate ust_edit (Resolved (user_ann\<lparr>user_name := ''Anna''\<rparr>)))) ! 0 = user_ann\<lparr>user_name := ''Anna''\<rparr>"
    by (simp add: u)
  from t h have n1: "users (fst (users_handleUpdate ust_edit (Resolved (user_ann\<lparr>user_name := ''Anna''\<rparr>)))) ! 1 = user_bob"
    by (simp add: u ids)
  have l: "users (fst (users_handleUpdate ust_edit (Resolved (user_ann\<lparr>user_name := ''Anna''\<rparr>))))
             = [user_ann\<lparr>user_name := ''Anna''\<rparr>, user_bob]"
    using len n0 n1 by (intro nth_equalityI) (auto simp: less_Suc_eq numeral_2_eq_2)
  show ?thesis using t h l by (simp add: u)
qed

text \<open>
  C6, as stated, fails on the orders screen. There a successful create is followed by a
  refetch, and the document the backend returned is not used; when the refetch fails the
  local list is unchanged and the new record is not in it.
\<close>

theorem orders_create_refetch_counterexample:
  "orders (fst (orders_handleAddNew (orders_openAddForm orders_initial) ''2024-03-01T00:00:00.000Z''
                  (Resolved ()) Rejected)) = [] \<and>
   list_ex is_create (snd (orders_handleAddNew (orders_openAddForm orders_initial) ''2024-03-01T00:00:00.000Z''
                  (Resolved ()) Rejected))"
  by (simp add: orders_handleAddNew_def orders_openAddForm_def orders_initial_def fetchOrders_def
        orders_handleCancel_def)

text \<open>
  C6, amended. On the users and products screens, after a create whose backend call
  succeeds, on a local list without the id the backend assigned, exactly one record of the
  local list has that id: the record returned by the backend (on the products screen, that
  record with the current image preview). On the orders screen a successful create
  refetches: the local list becomes the list the backend answers with, or stays as it was
  when the refetch fails.
\<close>

theorem create_appends_backend_record:
  "(users_required_present (users_formState ust) \<and> user_id newUser \<notin> user_id ` set (users ust) \<longrightarrow>
      filter (\<lambda>u. user_id u = user_id newUser) (users (fst (users_handleAddNew ust (Resolved newUser))))
        = [newUser]) \<and>
   (pd_id newProduct \<notin> product_id ` set (products pst) \<longrightarrow>
      filter (\<lambda>p. product_id p = pd_id newProduct)
             (products (fst (products_handleAddNew pst (Resolved newProduct))))
        = [mappedProduct newProduct (imagePreview pst)]) \<and>
   product_id (mappedProduct newProduct (imagePreview pst)) = pd_id newProduct \<and>
   orders (fst (orders_handleAddNew ost now (Resolved ()) (Resolved data))) = data \<and>
   orders (fst (orders_handleAddNew ost now (Resolved ()) Rejected)) = orders ost"
proof -
  have f: "\<And>P xs. (\<forall>x \<in> set xs. \<not> P x) \<Longrightarrow> filter P xs = []" by simp
  have a: "user_id newUser \<notin> user_id ` set (users ust) \<Longrightarrow>
           filter (\<lambda>u. user_id u = user_id newUser) (users ust) = []"
    by (rule f) (metis imageI)
  have b: "pd_id newProduct \<notin> product_id ` set (products pst) \<Longrightarrow>
           filter (\<lambda>p. product_id p = pd_id newProduct) (products pst) = []"
    by (rule f) (metis imageI)
  show ?thesis
    using a b
    by (simp add: users_handleAddNew_def products_handleAddNew_def products_handleCancel_def
          mappedProduct_def orders_handleAddNew_def orders_handleCancel_def fetchOrders_def)
qed

theorem create_appends_backend_record_witness:
  "users_required_present (users_formState ust_add) \<and> user_id user_bob \<notin> user_id ` set (users ust_add) \<and>
   pd_id doc_new \<notin> product_id ` set (products products_initial) \<and>
   filter (\<lambda>u. user_id u = user_id user_bob) (users (fst (users_handleAddNew ust_add (Resolved user_bob))))
        = [user_bob] \<and>
   filter (\<lambda>p. product_id p = pd_id doc_new)
             (products (fst (products_handleAddNew products_initial (Resolved doc_new))))
        = [mappedProduct doc_new (imagePreview products_initial)]"
proof -
  have h1: "users_required_present (users_formState ust_add)"
    by (simp add: ust_add_def users_required_present_def form_bob_def address_field_def)
  have h2: "user_id user_bob \<notin> user_id ` set (users ust_add)"
    by (simp add: ust_add_def users_openAddForm_def user_bob_def user_ann_def)
  have h3: "pd_id doc_new \<notin> product_id ` set (products products_initial)"
    by (simp add: products_initial_def)
  show ?thesis
    using h1 h2 h3 create_appends_backend_record [of ust_add user_bob doc_new products_initial orders_initial "[]" "[]"]
    by simp
qed

text \<open>
  C7. A successful pin toggle keeps the length of the local list; at every position the
  id, name, email, body text and creation timestamp are what they were; a message with the
  toggled id gets the pinned flag of the document the backend returned; every other message
  is unchanged. The rest of the screen state is unchanged as well.
\<close>

theorem togglePin_frame:
  "msgs_loading (fst (togglePin st ident cur (Resolved updated))) = msgs_loading st \<and>
   selectedMessage (fst (togglePin st ident cur (Resolved updated))) = selectedMessage st \<and>
   length (messages (fst (togglePin st ident cur (Resolved updated)))) = length (messages st) \<and>
   (\<forall>i < length (messages st).
      msg_id (messages (fst (togglePin st ident cur (Resolved updated))) ! i) = msg_id (messages st ! i) \<and>
      msg_name (messages (fst (togglePin st ident cur (Resolved updated))) ! i) = msg_name (messages st ! i) \<and>
      msg_email (messages (fst (togglePin st ident cur (Resolved updated))) ! i) = msg_email (messages st ! i) \<and>
      msg_message (messages (fst (togglePin st ident cur (Resolved updated))) ! i) = msg_message (messages st ! i) \<and>
      msg_createdAt (messages (fst (togglePin st ident cur (Resolved updated))) ! i) = msg_createdAt (messages st ! i) \<and>
      (msg_id (messages st ! i) = ident \<longrightarrow>
         msg_pinned (messages (fst (togglePin st ident cur (Resolved updated))) ! i) = msg_pinned updated) \<and>
      (msg_id (messages st ! i) \<noteq> ident \<longrightarrow>
         messages (fst (togglePin st ident cur (Resolved updated))) ! i = messages st ! i))"
  by (simp add: togglePin_def)

theorem togglePin_frame_witness:
  "(1::nat) < length (messages (messages_loaded [msg_jan, msg_feb])) \<and>
   msg_id (messages (messages_loaded [msg_jan, msg_feb]) ! 1) = ''m2'' \<and>
   msg_id (messages (messages_loaded [msg_jan, msg_feb]) ! 0) \<noteq> ''m2'' \<and>
   msg_pinned (messages (fst (togglePin (messages_loaded [msg_jan, msg_feb]) ''m2'' False
                               (Resolved (msg_feb\<lparr>msg_pinned := True\<rparr>)))) ! 1) = True \<and>
   msg_message (messages (fst (togglePin (messages_loaded [msg_jan, msg_feb]) ''m2'' False
                               (Resolved (msg_feb\<lparr>msg_pinned := True\<rparr>)))) ! 1) = ''hi'' \<and>
   messages (fst (togglePin (messages_loaded [msg_jan, msg_feb]) ''m2'' False
                               (Resolved (msg_feb\<lparr>msg_pinned := True\<rparr>)))) ! 0 = msg_jan"
proof -
  have m: "messages (messages_loaded [msg_jan, msg_feb]) = [msg_jan, msg_feb]"
    by (simp add: messages_loaded_def fetchMessages_def)
  have ids: "msg_id msg_jan = ''m1''" "msg_id msg_feb = ''m2''" "msg_message msg_feb = ''hi''"
    by (simp_all add: msg_jan_def msg_feb_def)
  note t = togglePin_frame [of "messages_loaded [msg_jan, msg_feb]" "''m2''" False
                               "msg_feb\<lparr>msg_pinned := True\<rparr>"]
  from t have i0: "messages (fst (togglePin (messages_loaded [msg_jan, msg_feb]) ''m2'' False
                               (Resolved (msg_feb\<lparr>msg_pinned := True\<rparr>)))) ! 0 = msg_jan"
    by (simp add: m ids)
  from t have i1: "msg_pinned (messages (fst (togglePin (messages_loaded [msg_jan, msg_feb]) ''m2'' False
                               (Resolved (msg_feb\<lparr>msg_pinned := True\<rparr>)))) ! 1) = True \<and>
      msg_message (messages (fst (togglePin (messages_loaded [msg_jan, msg_feb]) ''m2'' False
                               (Resolved (msg_feb\<lparr>msg_pinned := True\<rparr>)))) ! 1) = ''hi''"
    by (simp add: m ids)
  show ?thesis using i0 i1 by (simp add: m ids)
qed



text \<open>
  C9. When the required fields of the user form are present, the document sent to the
  backend has \<open>isVerified = false\<close> if the flag is absent from the buffer and the
  buffer's flag otherwise, \<open>role = "user"\<close> if the role is absent or empty and the
  buffer's role otherwise, and the name, email, mobile number, password and the five
  address fields exactly as the buffer has them. It is the first effect of the create
  handler.
\<close>

theorem newUserData_defaults:
  assumes "users_required_present fs"
  shows "nu_type (newUserData fs) = ''user'' \<and>
   (ui_isVerified fs = None \<longrightarrow> nu_isVerified (newUserData fs) = False) \<and>
   (\<forall>b. ui_isVerified fs = Some b \<longrightarrow> nu_isVerified (newUserData fs) = b) \<and>
   (\<not> truthy (ui_role fs) \<longrightarrow> nu_role (newUserData fs) = ''user'') \<and>
   (truthy (ui_role fs) \<longrightarrow> ui_role fs = Some (nu_role (newUserData fs))) \<and>
   ui_name fs = Some (nu_name (newUserData fs)) \<and>
   ui_email fs = Some (nu_email (newUserData fs)) \<and>
   ui_mobileNumber fs = Some (nu_mobileNumber (newUserData fs)) \<and>
   ui_password fs = Some (nu_password (newUserData fs)) \<and>
   address_field fs ai_street = Some (addr_street (nu_address (newUserData fs))) \<and>
   address_field fs ai_city = Some (addr_city (nu_address (newUserData fs))) \<and>
   address_field fs ai_state = Some (addr_state (nu_address (newUserData fs))) \<and>
   address_field fs ai_country = Some (addr_country (nu_address (newUserData fs))) \<and>
   address_field fs ai_postalCode = Some (addr_postalCode (nu_address (newUserData fs))) \<and>
   (users_formState st = fs \<longrightarrow>
      hd (snd (users_handleAddNew st created)) = ClientCreate (newUserData fs))"
proof -
  have t: "\<And>x. truthy x \<Longrightarrow> x = Some (the x)" by (case_tac x) simp_all
  have r: "truthy (ui_name fs)" "truthy (ui_email fs)" "truthy (ui_mobileNumber fs)"
    "truthy (ui_password fs)" "truthy (address_field fs ai_street)"
    "truthy (address_field fs ai_city)" "truthy (address_field fs ai_state)"
    "truthy (address_field fs ai_country)" "truthy (address_field fs ai_postalCode)"
    using assms by (simp_all add: users_required_present_def)
  obtain a where a: "ui_address fs = Some a"
    using r(5) by (cases "ui_address fs") (simp_all add: address_field_def)
  have af: "address_field fs ai_street = ai_street a" "address_field fs ai_city = ai_city a"
    "address_field fs ai_state = ai_state a" "address_field fs ai_country = ai_country a"
    "address_field fs ai_postalCode = ai_postalCode a"
    by (simp_all add: address_field_def a)
  have role: "(\<not> truthy (ui_role fs) \<longrightarrow> nu_role (newUserData fs) = ''user'') \<and>
              (truthy (ui_role fs) \<longrightarrow> ui_role fs = Some (nu_role (newUserData fs)))"
    by (cases "ui_role fs") (simp_all add: newUserData_def)
  have ver: "(ui_isVerified fs = None \<longrightarrow> nu_isVerified (newUserData fs) = False) \<and>
             (\<forall>b. ui_isVerified fs = Some b \<longrightarrow> nu_isVerified (newUserData fs) = b)"
    by (cases "ui_isVerified fs") (simp_all add: newUserData_def)
  have flds: "ui_name fs = Some (nu_name (newUserData fs))"
    "ui_email fs = Some (nu_email (newUserData fs))"
    "ui_mobileNumber fs = Some (nu_mobileNumber (newUserData fs))"
    "ui_password fs = Some (nu_password (newUserData fs))"
    using t [OF r(1)] t [OF r(2)] t [OF r(3)] t [OF r(4)] by (simp_all add: newUserData_def)
  have addr: "address_field fs ai_street = Some (addr_street (nu_address (newUserData fs)))"
    "address_field fs ai_city = Some (addr_city (nu_address (newUserData fs)))"
    "address_field fs ai_state = Some (addr_state (nu_address (newUserData fs)))"
    "address_field fs ai_country = Some (addr_country (nu_address (newUserData fs)))"
    "address_field fs ai_postalCode = Some (addr_postalCode (nu_address (newUserData fs)))"
    using t [OF r(5)] t [OF r(6)] t [OF r(7)] t [OF r(8)] t [OF r(9)]
    by (simp_all add: newUserData_def af a)
  have sent: "users_formState st = fs \<longrightarrow>
      hd (snd (users_handleAddNew st created)) = ClientCreate (newUserData fs)"
    using assms by (cases created) (auto simp: users_handleAddNew_def)
  have ty: "nu_type (newUserData fs) = ''user''" by (simp add: newUserData_def)
  from ty role ver flds addr sent show ?thesis by blast
qed

theorem newUserData_defaults_witness:
  "users_required_present form_bob \<and> ui_isVerified form_bob = None \<and> \<not> truthy (ui_role form_bob) \<and>
   users_formState ust_add = form_bob \<and>
   nu_isVerified (newUserData form_bob) = False \<and> nu_role (newUserData form_bob) = ''user'' \<and>
   nu_name (newUserData form_bob) = ''Bob'' \<and>
   hd (snd (users_handleAddNew ust_add Rejected)) = ClientCreate (newUserData form_bob)"
proof -
  have h: "users_required_present form_bob"
    by (simp add: users_required_present_def form_bob_def address_field_def)
  have v: "ui_isVerified form_bob = None" "\<not> truthy (ui_role form_bob)"
          "ui_name form_bob = Some ''Bob''" "users_formState ust_add = form_bob"
    by (simp_all add: form_bob_def ust_add_def)
  show ?thesis
    using h v newUserData_defaults [OF h, of ust_add Rejected] by simp
qed

text \<open>
  C10. The \<open>cartItems\<close> of the update payload is the empty list when the text field
  is absent or empty, and otherwise the trimmed pieces of the text cut at its commas. The
  pieces are what cutting at commas means: joined with commas they give the text back and
  none contains a comma. Trimming a piece removes white space at both ends and nothing
  else; white space is tab, line feed, vertical tab, form feed, carriage return, space and
  the no-break space. The payload is what the update handler sends. Opening an order for editing and
  submitting the untouched form sends the list of the product ids of its line items (when
  the ids are clean), as strings: quantities and product details are not in the payload.
\<close>

theorem updateData_cartItems:
  "(\<not> truthy (of_cartItems fs) \<longrightarrow> of_cartItems (updateData fs) = []) \<and>
   (\<forall>s. of_cartItems fs = Some s \<and> s \<noteq> [] \<longrightarrow>
        of_cartItems (updateData fs) = map js_trim (js_split CHR '','' s)) \<and>
   js_join '','' (js_split CHR '','' field_text) = field_text \<and>
   (\<forall>piece \<in> set (js_split CHR '','' field_text). CHR '','' \<notin> set piece) \<and>
   (\<exists>before after. piece = before @ js_trim piece @ after \<and>
        (\<forall>c \<in> set before. js_is_space c) \<and> (\<forall>c \<in> set after. js_is_space c)) \<and>
   (js_trim piece \<noteq> [] \<longrightarrow>
        \<not> js_is_space (hd (js_trim piece)) \<and> \<not> js_is_space (last (js_trim piece))) \<and>
   js_is_space c = (c = CHR 0x09 \<or> c = CHR 0x0A \<or> c = CHR 0x0B \<or> c = CHR 0x0C \<or> c = CHR 0x0D
                    \<or> c = CHR 0x20 \<or> c = CHR 0xA0) \<and>
   (editingOrder st = Some eo \<and> order_id eo \<noteq> [] \<longrightarrow>
        hd (snd (orders_handleUpdate st patched))
          = ClientPatch (order_id eo) (SetFields (updateData (orders_formState st)))) \<and>
   ((\<forall>item \<in> set (order_cartItems ord). clean_id (pr_id (ci_product item))) \<longrightarrow>
        of_cartItems (updateData (orders_formState (orders_handleEditClick st ord)))
          = map (\<lambda>item. pr_id (ci_product item)) (order_cartItems ord))"
proof -
  have a: "\<not> truthy (of_cartItems fs) \<longrightarrow> of_cartItems (updateData fs) = []"
    by (simp add: updateData_def spread_with_cartItems_def cartItemsArray_def)
  have b: "\<forall>s. of_cartItems fs = Some s \<and> s \<noteq> [] \<longrightarrow>
        of_cartItems (updateData fs) = map js_trim (js_split CHR '','' s)"
    by (simp add: updateData_def spread_with_cartItems_def cartItemsArray_def)
  have c: "js_join '','' (js_split CHR '','' field_text) = field_text"
    by (rule js_split_join)
  have d: "\<forall>piece \<in> set (js_split CHR '','' field_text). CHR '','' \<notin> set piece"
    using js_split_pieces by blast
  have e: "\<exists>before after. piece = before @ js_trim piece @ after \<and>
        (\<forall>c \<in> set before. js_is_space c) \<and> (\<forall>c \<in> set after. js_is_space c)"
  proof (intro exI conjI)
    show "piece = takeWhile js_is_space piece @ js_trim piece
                  @ rev (takeWhile js_is_space (rev (dropWhile js_is_space piece)))"
      by (rule js_trim_decompose)
    show "\<forall>c \<in> set (takeWhile js_is_space piece). js_is_space c"
      by (blast dest: set_takeWhileD)
    show "\<forall>c \<in> set (rev (takeWhile js_is_space (rev (dropWhile js_is_space piece)))). js_is_space c"
      by (auto dest: set_takeWhileD)
  qed
  have f: "js_trim piece \<noteq> [] \<longrightarrow>
        \<not> js_is_space (hd (js_trim piece)) \<and> \<not> js_is_space (last (js_trim piece))"
    using js_trim_ends by blast
  have g: "editingOrder st = Some eo \<and> order_id eo \<noteq> [] \<longrightarrow>
        hd (snd (orders_handleUpdate st patched))
          = ClientPatch (order_id eo) (SetFields (updateData (orders_formState st)))"
    by (cases patched) (simp_all add: orders_handleUpdate_def)
  have h: "(\<forall>item \<in> set (order_cartItems ord). clean_id (pr_id (ci_product item))) \<longrightarrow>
        of_cartItems (updateData (orders_formState (orders_handleEditClick st ord)))
          = map (\<lambda>item. pr_id (ci_product item)) (order_cartItems ord)"
  proof
    assume cl: "\<forall>item \<in> set (order_cartItems ord). clean_id (pr_id (ci_product item))"
    let ?ids = "map (\<lambda>item. pr_id (ci_product item)) (order_cartItems ord)"
    have cl': "\<forall>i \<in> set ?ids. clean_id i" using cl by simp
    have eq: "of_cartItems (updateData (orders_formState (orders_handleEditClick st ord)))
              = cartItemsArray (order_input_empty\<lparr>of_cartItems := Some (js_join '', '' ?ids)\<rparr>)"
      by (simp add: updateData_def spread_with_cartItems_def orders_handleEditClick_def
            cartItemsArray_def)
    show "of_cartItems (updateData (orders_formState (orders_handleEditClick st ord))) = ?ids"
    proof (cases "?ids = []")
      case True
      then show ?thesis unfolding eq by (simp add: cartItemsArray_def)
    next
      case False
      have ne: "js_join '', '' ?ids \<noteq> []"
        using False cl' by (intro join_nonempty) (auto simp: clean_id_def)
      show ?thesis
        unfolding eq using ne split_join_ids [OF False cl'] by (simp add: cartItemsArray_def)
    qed
  qed
  have w: "js_is_space c = (c = CHR 0x09 \<or> c = CHR 0x0A \<or> c = CHR 0x0B \<or> c = CHR 0x0C
                    \<or> c = CHR 0x0D \<or> c = CHR 0x20 \<or> c = CHR 0xA0)"
    by (simp add: js_is_space_def)
  from a b c d e f g h w show ?thesis by blast
qed

text \<open>
  The text of the field retyped as no-break space, \<open>p1\<close>, no-break space, comma, space,
  \<open>p7_\<close>, space, tab, two commas, line feed: the payload is \<open>p1\<close>, \<open>p7_\<close> and two
  empty strings.
\<close>

theorem updateData_cartItems_witness:
  "of_cartItems form_edit_one = Some retyped_items \<and> retyped_items \<noteq> [] \<and>
   of_cartItems (updateData form_edit_one) = [''p1'', ''p7_'', [], []] \<and>
   js_join '','' (js_split CHR '','' retyped_items) = retyped_items \<and>
   js_is_space (CHR 0xA0) \<and> \<not> js_is_space CHR ''_'' \<and>
   editingOrder ost_edit = Some order_one \<and> order_id order_one \<noteq> [] \<and>
   clean_id ''p1'' \<and> clean_id ''p2'' \<and>
   of_cartItems (updateData (orders_formState ost_edit)) = [''p1'', ''p2'']"
proof -
  have h1: "of_cartItems form_edit_one = Some retyped_items" by (simp add: form_edit_one_def)
  have h2: "editingOrder ost_edit = Some order_one \<and> order_id order_one \<noteq> []"
    by (simp add: ost_edit_def orders_handleEditClick_def order_one_def)
  have h3: "\<forall>item \<in> set (order_cartItems order_one). clean_id (pr_id (ci_product item))"
    by (simp add: order_one_def clean_id_def js_is_space_def)
  have h4: "clean_id ''p1'' \<and> clean_id ''p2''"
    by (simp add: clean_id_def js_is_space_def)
  have h5: "retyped_items \<noteq> []" by (simp add: retyped_items_def)
  have ev: "map js_trim (js_split CHR '','' retyped_items) = [''p1'', ''p7_'', [], []]"
    by (simp add: retyped_items_def js_trim_def js_is_space_def)
  have ids: "map (\<lambda>item. pr_id (ci_product item)) (order_cartItems order_one) = [''p1'', ''p2'']"
    by (simp add: order_one_def)
  have s1: "js_is_space (CHR 0xA0)"
    using updateData_cartItems [where c = "CHR 0xA0"] by simp
  have s2: "\<not> js_is_space CHR ''_''"
    using updateData_cartItems [where c = "CHR ''_''"] by simp
  have j: "js_join '','' (js_split CHR '','' retyped_items) = retyped_items"
    using updateData_cartItems [where field_text = retyped_items] by blast
  have p1: "of_cartItems (updateData form_edit_one) = [''p1'', ''p7_'', [], []]"
    using updateData_cartItems [where fs = form_edit_one] h1 h5 ev by simp
  have p2: "of_cartItems (updateData (orders_formState ost_edit)) = [''p1'', ''p2'']"
    using updateData_cartItems [where st = "orders_initial\<lparr>orders := [order_one]\<rparr>"
                                  and ord = order_one] h3 ids
    by (simp add: ost_edit_def)
  show ?thesis using h1 h2 h4 h5 s1 s2 j p1 p2 by simp
qed

end
